theory Spec2Isabelle
  imports Main "HOL-Library.Sublist"
begin

section \<open>The shell of \<open>helm-learning/deploy.sh\<close>\<close>

text \<open>
  The script drives three external tools.  Every invocation of one of them is a value of
  \<open>cmd\<close>; the chart argument of \<open>helm install\<close> and \<open>helm upgrade\<close> is always \<open>.\<close> and is
  left out.  The last field of \<open>HelmUpgrade\<close> and \<open>HelmInstall\<close> says whether \<open>--wait\<close> was
  passed.
\<close>

datatype cmd =
    KindGetClusters
  | KindCreateCluster string
  | KubectlUseContext string
  | KubectlGetNamespace string
  | KubectlCreateNamespace string
  | HelmList string
  | HelmUpgrade string string string bool
  | HelmInstall string string string bool
  | HelmUninstall string string
  | KubectlGetDeployments string string
  | KubectlGetPods string string
  | KubectlGetServices string string

text \<open>
  What a run does, in order.  \<open>Run c\<close>: the external command \<open>c\<close> is started.
  \<open>Info m\<close>, \<open>Error m\<close>, \<open>Warning m\<close>: \<open>print_info\<close>, \<open>print_error\<close>, \<open>print_warning\<close> is
  called with the argument \<open>m\<close> (lines 15-25); the terminal gets \<open>echo -e\<close> of the coloured tag
  and of \<open>m\<close>, which is \<open>m\<close> itself unless \<open>m\<close> has a backslash, and only the option repeated
  after \<open>Unknown option:\<close> can have one.  \<open>Echo l\<close>: the line \<open>l\<close> is written as it is (the
  \<open>echo ""\<close> of the script, and the lines that \<open>grep\<close> selects on line 133).  \<open>Usage\<close>: the
  text of \<open>show_usage\<close>.
\<close>

datatype event =
    Run cmd
  | Info string
  | Error string
  | Warning string
  | Echo string
  | Usage

text \<open>
  The tools are not part of the repository, so the script is modelled over an arbitrary
  system: \<open>command_v t w\<close> is the answer of \<open>command -v t\<close> in the world \<open>w\<close>, and
  \<open>exec c w\<close> gives the exit status of the command \<open>c\<close>, the lines it writes to standard
  output, and the world it leaves behind.
\<close>

record 'w system =
  command_v :: "string \<Rightarrow> 'w \<Rightarrow> bool"
  exec :: "cmd \<Rightarrow> 'w \<Rightarrow> (nat \<times> string list) \<times> 'w"

text \<open>
  A piece of script either falls through to the next command (\<open>Next\<close>) or ends the
  process (\<open>Exit\<close>, by \<open>exit n\<close> or by \<open>set -e\<close>); it returns the world it leaves and the
  events it produced.
\<close>

datatype 'a flow = Next 'a | Exit nat

type_synonym ('w, 'a) sh = "'w \<Rightarrow> 'a flow \<times> 'w \<times> event list"

definition ret :: "'a \<Rightarrow> ('w, 'a) sh" where
  "ret a w = (Next a, w, [])"

definition exit_sh :: "nat \<Rightarrow> ('w, 'a) sh" where
  "exit_sh n w = (Exit n, w, [])"

definition emit :: "event \<Rightarrow> ('w, unit) sh" where
  "emit e w = (Next (), w, [e])"

definition seq :: "('w, 'a) sh \<Rightarrow> ('a \<Rightarrow> ('w, 'b) sh) \<Rightarrow> ('w, 'b) sh" where
  "seq m k w =
     (case m w of
        (Exit n, w1, t1) \<Rightarrow> (Exit n, w1, t1)
      | (Next a, w1, t1) \<Rightarrow> (case k a w1 of (r, w2, t2) \<Rightarrow> (r, w2, t1 @ t2)))"

text \<open>A command whose status is only looked at (a condition, or a pipeline's left side).\<close>

definition run :: "'w system \<Rightarrow> cmd \<Rightarrow> ('w, nat \<times> string list) sh" where
  "run sys c w = (case exec sys c w of (r, w1) \<Rightarrow> (Next r, w1, [Run c]))"

text \<open>A simple command under \<open>set -e\<close> (line 6): a status other than 0 ends the script with it.\<close>

definition simple :: "'w system \<Rightarrow> cmd \<Rightarrow> ('w, unit) sh" where
  "simple sys c = seq (run sys c) (\<lambda>r. if fst r = 0 then ret () else exit_sh (fst r))"

definition print_info :: "string \<Rightarrow> ('w, unit) sh" where
  "print_info msg = emit (Info msg)"

definition print_error :: "string \<Rightarrow> ('w, unit) sh" where
  "print_error msg = emit (Error msg)"

definition print_warning :: "string \<Rightarrow> ('w, unit) sh" where
  "print_warning msg = emit (Warning msg)"

definition echo :: "string \<Rightarrow> ('w, unit) sh" where
  "echo msg = emit (Echo msg)"

subsection \<open>The two \<open>grep\<close> tests\<close>

text \<open>
  \<open>grep -q "^$1$"\<close> (line 29) selects the lines that match the name from their first to
  their last character, and \<open>grep "echo-server-${ENV}"\<close> (lines 68, 132, 133, 159) the lines
  that match the text somewhere.  A name is put into the pattern as it is, so a dot in it
  matches any character (\<open>wild\<close>).  The other characters are compared as they are; that is
  what \<open>grep\<close> does unless the name has one of the characters \<open>[ ] * ^ $\<close>, a backslash or a
  line feed (\<open>plain_name\<close>), and no name that \<open>main\<close> passes has one.
\<close>

definition wild :: "char \<Rightarrow> char \<Rightarrow> bool" where
  "wild p c = (p = CHR ''.'' \<or> p = c)"

definition plain_name :: "string \<Rightarrow> bool" where
  "plain_name s =
     list_all (\<lambda>c. c \<notin> set [CHR ''['', CHR '']'', CHR ''*'', CHR ''^'', CHR ''$'', CHR 0x5C, CHR 0x0A]) s"

definition line_matches :: "string \<Rightarrow> string \<Rightarrow> bool" where
  "line_matches pat l = list_all2 wild pat l"

fun match_here :: "string \<Rightarrow> string \<Rightarrow> bool" where
  "match_here [] s = True"
| "match_here (p # ps) [] = False"
| "match_here (p # ps) (c # cs) = (wild p c \<and> match_here ps cs)"

fun contains :: "string \<Rightarrow> string \<Rightarrow> bool" where
  "contains pat [] = match_here pat []"
| "contains pat (c # cs) = (match_here pat (c # cs) \<or> contains pat cs)"

definition grep :: "string \<Rightarrow> string list \<Rightarrow> string list" where
  "grep pat ls = filter (contains pat) ls"

definition grep_line :: "string \<Rightarrow> string list \<Rightarrow> string list" where
  "grep_line pat ls = filter (line_matches pat) ls"

text \<open>Lines 28-30.  The status of the pipeline is that of \<open>grep\<close>; the one of \<open>kind\<close> is dropped.\<close>

definition cluster_exists :: "'w system \<Rightarrow> string \<Rightarrow> ('w, bool) sh" where
  "cluster_exists sys name =
     seq (run sys KindGetClusters) (\<lambda>r. ret (grep_line name (snd r) \<noteq> []))"

text \<open>The condition \<open>helm list -n "$NAMESPACE" | grep -q "echo-server-${ENV}"\<close>.\<close>

definition release_listed :: "'w system \<Rightarrow> string \<Rightarrow> string \<Rightarrow> ('w, bool) sh" where
  "release_listed sys NAMESPACE ENV =
     seq (run sys (HelmList NAMESPACE)) (\<lambda>r. ret (grep (''echo-server-'' @ ENV) (snd r) \<noteq> []))"

subsection \<open>\<open>deploy_environment\<close> (lines 38-92)\<close>

text \<open>Lines 46-53: check if the cluster exists, create it if not.\<close>

definition ensure_cluster :: "'w system \<Rightarrow> string \<Rightarrow> ('w, unit) sh" where
  "ensure_cluster sys CLUSTER_NAME =
     seq (cluster_exists sys CLUSTER_NAME) (\<lambda>ex.
       if \<not> ex then
         seq (print_error (''Cluster '' @ CLUSTER_NAME @ '' does not exist!'')) (\<lambda>_.
         seq (print_info (''Creating cluster '' @ CLUSTER_NAME @ ''...'')) (\<lambda>_.
         simple sys (KindCreateCluster CLUSTER_NAME)))
       else print_info (''Cluster '' @ CLUSTER_NAME @ '' already exists''))"

text \<open>Lines 55-57: switch context.\<close>

definition switch_context :: "'w system \<Rightarrow> string \<Rightarrow> ('w, unit) sh" where
  "switch_context sys CLUSTER_NAME =
     seq (print_info ''Switching to cluster context...'') (\<lambda>_.
     simple sys (KubectlUseContext (''kind-'' @ CLUSTER_NAME)))"

text \<open>Lines 59-65: create the namespace if it does not exist.\<close>

definition ensure_namespace :: "'w system \<Rightarrow> string \<Rightarrow> ('w, unit) sh" where
  "ensure_namespace sys NAMESPACE =
     seq (run sys (KubectlGetNamespace NAMESPACE)) (\<lambda>r.
       if fst r \<noteq> 0 then
         seq (print_info (''Creating namespace '' @ NAMESPACE @ ''...'')) (\<lambda>_.
         simple sys (KubectlCreateNamespace NAMESPACE))
       else print_info (''Namespace '' @ NAMESPACE @ '' already exists''))"

text \<open>Lines 67-82: upgrade the release if \<open>helm list\<close> shows it, install it otherwise.\<close>

definition install_or_upgrade :: "'w system \<Rightarrow> string \<Rightarrow> string \<Rightarrow> string \<Rightarrow> ('w, unit) sh" where
  "install_or_upgrade sys ENV VALUES_FILE NAMESPACE =
     seq (release_listed sys NAMESPACE ENV) (\<lambda>listed.
       if listed then
         seq (print_warning (''Release echo-server-'' @ ENV @ '' already exists. Upgrading...'')) (\<lambda>_.
         seq (simple sys (HelmUpgrade (''echo-server-'' @ ENV) VALUES_FILE NAMESPACE True)) (\<lambda>_.
         print_info ''Upgrade completed successfully!''))
       else
         seq (print_info ''Installing new release...'') (\<lambda>_.
         seq (simple sys (HelmInstall (''echo-server-'' @ ENV) VALUES_FILE NAMESPACE True)) (\<lambda>_.
         print_info ''Installation completed successfully!'')))"

text \<open>Lines 84-91: display the deployment status.\<close>

definition display_status :: "'w system \<Rightarrow> string \<Rightarrow> string \<Rightarrow> ('w, unit) sh" where
  "display_status sys ENV NAMESPACE =
     seq (print_info ''Deployment status:'') (\<lambda>_.
     seq (simple sys (KubectlGetDeployments NAMESPACE (''environment='' @ ENV))) (\<lambda>_.
     seq (echo '''') (\<lambda>_.
     seq (simple sys (KubectlGetPods NAMESPACE (''environment='' @ ENV))) (\<lambda>_.
     seq (echo '''') (\<lambda>_.
     seq (simple sys (KubectlGetServices NAMESPACE (''environment='' @ ENV))) (\<lambda>_.
     echo ''''))))))"

definition deploy_environment ::
  "'w system \<Rightarrow> string \<Rightarrow> string \<Rightarrow> string \<Rightarrow> string \<Rightarrow> ('w, unit) sh" where
  "deploy_environment sys ENV CLUSTER_NAME VALUES_FILE NAMESPACE =
     seq (print_info (''Deploying to '' @ ENV @ '' environment on cluster '' @ CLUSTER_NAME @ ''...'')) (\<lambda>_.
     seq (ensure_cluster sys CLUSTER_NAME) (\<lambda>_.
     seq (switch_context sys CLUSTER_NAME) (\<lambda>_.
     seq (ensure_namespace sys NAMESPACE) (\<lambda>_.
     seq (install_or_upgrade sys ENV VALUES_FILE NAMESPACE) (\<lambda>_.
     display_status sys ENV NAMESPACE)))))"

subsection \<open>\<open>show_usage\<close>, \<open>show_status\<close>, \<open>clean_deployments\<close>\<close>

definition show_usage :: "('w, unit) sh" where
  "show_usage = emit Usage"

text \<open>\<open>for ENV in dev prd; do ... done\<close>.\<close>

fun for_each :: "('a \<Rightarrow> ('w, unit) sh) \<Rightarrow> 'a list \<Rightarrow> ('w, unit) sh" where
  "for_each body [] = ret ()"
| "for_each body (x # xs) = seq (body x) (\<lambda>_. for_each body xs)"

text \<open>\<open>${ENV^^}\<close> on line 129.\<close>

definition upper_char :: "char \<Rightarrow> char" where
  "upper_char c =
     (case map_of (zip ''abcdefghijklmnopqrstuvwxyz'' ''ABCDEFGHIJKLMNOPQRSTUVWXYZ'') c of
        Some u \<Rightarrow> u
      | None \<Rightarrow> c)"

definition upper :: "string \<Rightarrow> string" where
  "upper s = map upper_char s"

text \<open>
  The body of the loop of \<open>show_status\<close> (lines 125-143).  Line 133 is a pipeline outside
  any condition: it prints the selected lines and, under \<open>set -e\<close>, ends the script with
  status 1 when \<open>grep\<close> selects nothing.
\<close>

definition status_env :: "'w system \<Rightarrow> string \<Rightarrow> ('w, unit) sh" where
  "status_env sys ENV =
     (let CLUSTER = ''kind-nur-'' @ ENV; NAMESPACE = ENV in
      seq (cluster_exists sys (''nur-'' @ ENV)) (\<lambda>ex.
      seq (if ex then
             seq (print_info (''=== '' @ upper ENV @ '' Environment ('' @ CLUSTER @ '') ==='')) (\<lambda>_.
             seq (simple sys (KubectlUseContext CLUSTER)) (\<lambda>_.
             seq (release_listed sys NAMESPACE ENV) (\<lambda>listed.
               if listed then
                 seq (run sys (HelmList NAMESPACE)) (\<lambda>r.
                 seq (if grep (''echo-server-'' @ ENV) (snd r) = [] then exit_sh 1
                      else for_each echo (grep (''echo-server-'' @ ENV) (snd r))) (\<lambda>_.
                 seq (echo '''') (\<lambda>_.
                 seq (simple sys (KubectlGetPods NAMESPACE (''environment='' @ ENV))) (\<lambda>_.
                 echo ''''))))
               else print_warning (''No Helm release found in '' @ ENV))))
           else print_warning (''Cluster '' @ CLUSTER @ '' does not exist'')) (\<lambda>_.
      echo '''')))"

text \<open>Lines 120-145.\<close>

definition show_status :: "'w system \<Rightarrow> ('w, unit) sh" where
  "show_status sys =
     seq (print_info ''Checking deployment status...'') (\<lambda>_.
     seq (echo '''') (\<lambda>_.
     for_each (status_env sys) [''dev'', ''prd'']))"

text \<open>The body of the loop of \<open>clean_deployments\<close> (lines 152-165).\<close>

definition clean_env :: "'w system \<Rightarrow> string \<Rightarrow> ('w, unit) sh" where
  "clean_env sys ENV =
     (let CLUSTER = ''kind-nur-'' @ ENV; NAMESPACE = ENV in
      seq (cluster_exists sys (''nur-'' @ ENV)) (\<lambda>ex.
        if ex then
          seq (print_info (''Cleaning '' @ ENV @ '' environment...'')) (\<lambda>_.
          seq (simple sys (KubectlUseContext CLUSTER)) (\<lambda>_.
          seq (release_listed sys NAMESPACE ENV) (\<lambda>listed.
            if listed then
              seq (simple sys (HelmUninstall (''echo-server-'' @ ENV) NAMESPACE)) (\<lambda>_.
              print_info (ENV @ '' release uninstalled''))
            else print_warning (''No release found in '' @ ENV))))
        else ret ()))"

text \<open>Lines 148-169.\<close>

definition clean_deployments :: "'w system \<Rightarrow> ('w, unit) sh" where
  "clean_deployments sys =
     seq (print_warning ''Cleaning up all deployments...'') (\<lambda>_.
     seq (for_each (clean_env sys) [''dev'', ''prd'']) (\<lambda>_.
     print_info ''Cleanup completed!''))"

subsection \<open>\<open>main\<close> (lines 172-221)\<close>

text \<open>Lines 173-189: the three prerequisite checks, each ending the script with \<open>exit 1\<close>.\<close>

definition check_tool :: "'w system \<Rightarrow> string \<Rightarrow> string \<Rightarrow> ('w, unit) sh" where
  "check_tool sys tool msg w =
     (if \<not> command_v sys tool w then seq (print_error msg) (\<lambda>_. exit_sh 1) w else ret () w)"

definition check_prerequisites :: "'w system \<Rightarrow> ('w, unit) sh" where
  "check_prerequisites sys =
     seq (check_tool sys ''helm'' ''Helm is not installed. Please install Helm first.'') (\<lambda>_.
     seq (check_tool sys ''kind'' ''kind is not installed. Please install kind first.'') (\<lambda>_.
     check_tool sys ''kubectl'' ''kubectl is not installed. Please install kubectl first.''))"

text \<open>\<open>${1:-help}\<close>: the first argument, or \<open>help\<close> when it is unset or empty.\<close>

definition first_arg :: "string list \<Rightarrow> string" where
  "first_arg args = (case args of [] \<Rightarrow> ''help'' | a # _ \<Rightarrow> if a = [] then ''help'' else a)"

text \<open>Lines 191-220.  In \<open>Unknown option: $1\<close> the argument is not empty, so \<open>$1\<close> is it.\<close>

definition dispatch :: "'w system \<Rightarrow> string \<Rightarrow> ('w, unit) sh" where
  "dispatch sys a =
     (if a = ''dev'' then deploy_environment sys ''dev'' ''nur-dev'' ''values-dev.yaml'' ''dev''
      else if a = ''prd'' then deploy_environment sys ''prd'' ''nur-prd'' ''values-prd.yaml'' ''prd''
      else if a = ''all'' then
        seq (deploy_environment sys ''dev'' ''nur-dev'' ''values-dev.yaml'' ''dev'') (\<lambda>_.
        seq (echo '''') (\<lambda>_.
        seq (print_info ''=========================================='') (\<lambda>_.
        seq (echo '''') (\<lambda>_.
        deploy_environment sys ''prd'' ''nur-prd'' ''values-prd.yaml'' ''prd''))))
      else if a = ''status'' then show_status sys
      else if a = ''clean'' then clean_deployments sys
      else if a = ''help'' \<or> a = ''--help'' \<or> a = ''-h'' then show_usage
      else
        seq (print_error (''Unknown option: '' @ a)) (\<lambda>_.
        seq (echo '''') (\<lambda>_.
        seq show_usage (\<lambda>_.
        exit_sh 1))))"

definition main :: "'w system \<Rightarrow> string list \<Rightarrow> ('w, unit) sh" where
  "main sys args = seq (check_prerequisites sys) (\<lambda>_. dispatch sys (first_arg args))"

text \<open>
  The script ends with \<open>main "$@"\<close>: the status of the process is the one of \<open>exit\<close> or of
  the command that \<open>set -e\<close> stopped at, and 0 when \<open>main\<close> returns (its last command is
  always an \<open>echo\<close> or a \<open>cat\<close>).
\<close>

definition exit_status :: "'a flow \<times> 'w \<times> event list \<Rightarrow> nat" where
  "exit_status r = (case fst r of Next _ \<Rightarrow> 0 | Exit n \<Rightarrow> n)"

definition events :: "'a flow \<times> 'w \<times> event list \<Rightarrow> event list" where
  "events r = snd (snd r)"

definition final_world :: "'a flow \<times> 'w \<times> event list \<Rightarrow> 'w" where
  "final_world r = fst (snd r)"

definition commands :: "event list \<Rightarrow> cmd list" where
  "commands t = concat (map (\<lambda>e. case e of Run c \<Rightarrow> [c] | _ \<Rightarrow> []) t)"

section \<open>Reading a run\<close>

text \<open>The status of \<open>c\<close> in the world \<open>w\<close>, the lines it prints there, the world it leaves.\<close>

definition status_of :: "'w system \<Rightarrow> cmd \<Rightarrow> 'w \<Rightarrow> nat" where
  "status_of sys c w = fst (fst (exec sys c w))"

definition output_of :: "'w system \<Rightarrow> cmd \<Rightarrow> 'w \<Rightarrow> string list" where
  "output_of sys c w = snd (fst (exec sys c w))"

definition after :: "'w system \<Rightarrow> cmd \<Rightarrow> 'w \<Rightarrow> 'w" where
  "after sys c w = snd (exec sys c w)"

text \<open>What the two tests of the script answer in a world.\<close>

definition cluster_listed :: "'w system \<Rightarrow> string \<Rightarrow> 'w \<Rightarrow> bool" where
  "cluster_listed sys name w = (grep_line name (output_of sys KindGetClusters w) \<noteq> [])"

definition release_shown :: "'w system \<Rightarrow> string \<Rightarrow> string \<Rightarrow> 'w \<Rightarrow> bool" where
  "release_shown sys NAMESPACE ENV w =
     (grep (''echo-server-'' @ ENV) (output_of sys (HelmList NAMESPACE) w) \<noteq> [])"

text \<open>All three tools are found by \<open>command -v\<close>.\<close>

definition tools_present :: "'w system \<Rightarrow> 'w \<Rightarrow> bool" where
  "tools_present sys w =
     (command_v sys ''helm'' w \<and> command_v sys ''kind'' w \<and> command_v sys ''kubectl'' w)"

text \<open>
  The step a command belongs to, with the context or namespace it names.  The commands
  that only display the deployment (lines 84-91, 135) belong to no step.
\<close>

datatype step =
    EnsureCluster
  | SwitchContext string
  | EnsureNamespace string
  | InstallOrUpgrade string
  | Uninstall string

fun step_of :: "cmd \<Rightarrow> step option" where
  "step_of KindGetClusters = Some EnsureCluster"
| "step_of (KindCreateCluster n) = Some EnsureCluster"
| "step_of (KubectlUseContext c) = Some (SwitchContext c)"
| "step_of (KubectlGetNamespace ns) = Some (EnsureNamespace ns)"
| "step_of (KubectlCreateNamespace ns) = Some (EnsureNamespace ns)"
| "step_of (HelmList ns) = Some (InstallOrUpgrade ns)"
| "step_of (HelmUpgrade r v ns wt) = Some (InstallOrUpgrade ns)"
| "step_of (HelmInstall r v ns wt) = Some (InstallOrUpgrade ns)"
| "step_of (HelmUninstall r ns) = Some (Uninstall ns)"
| "step_of (KubectlGetDeployments ns l) = None"
| "step_of (KubectlGetPods ns l) = None"
| "step_of (KubectlGetServices ns l) = None"

definition steps :: "event list \<Rightarrow> step list" where
  "steps t = remdups_adj (List.map_filter step_of (commands t))"

text \<open>The order of the kinds of command inside one deployment.\<close>

fun step_rank :: "cmd \<Rightarrow> nat" where
  "step_rank KindGetClusters = 1"
| "step_rank (KindCreateCluster n) = 1"
| "step_rank (KubectlUseContext c) = 2"
| "step_rank (KubectlGetNamespace ns) = 3"
| "step_rank (KubectlCreateNamespace ns) = 3"
| "step_rank (HelmList ns) = 4"
| "step_rank (HelmUpgrade r v ns wt) = 4"
| "step_rank (HelmInstall r v ns wt) = 4"
| "step_rank (HelmUninstall r ns) = 4"
| "step_rank (KubectlGetDeployments ns l) = 5"
| "step_rank (KubectlGetPods ns l) = 5"
| "step_rank (KubectlGetServices ns l) = 5"

section \<open>A laboratory of clusters\<close>

text \<open>
  A small system to run the script on: the clusters of \<open>kind\<close>, the contexts of the
  kubeconfig file and the current one, the namespaces of each context and the releases
  of each namespace.  A command fails with status 1 when the tool would refuse it.
\<close>

record lab =
  path :: "string list"
  clusters :: "string list"
  contexts :: "string list"
  current :: string
  namespaces :: "(string \<times> string) list"
  releases :: "(string \<times> string \<times> string) list"

definition helm_rows :: "lab \<Rightarrow> string \<Rightarrow> string list" where
  "helm_rows w ns =
     ''NAME NAMESPACE REVISION STATUS'' #
     map (\<lambda>(c, n, r). r @ '' '' @ n @ '' 1 deployed'')
       (filter (\<lambda>(c, n, r). c = current w \<and> n = ns) (releases w))"

fun lab_exec :: "cmd \<Rightarrow> lab \<Rightarrow> (nat \<times> string list) \<times> lab" where
  "lab_exec KindGetClusters w = ((0, clusters w), w)"
| "lab_exec (KindCreateCluster n) w =
     (if n \<in> set (clusters w) then ((1, []), w)
      else ((0, []), w\<lparr>clusters := clusters w @ [n],
                        contexts := contexts w @ [''kind-'' @ n],
                        current := ''kind-'' @ n\<rparr>))"
| "lab_exec (KubectlUseContext c) w =
     (if c \<in> set (contexts w) then ((0, []), w\<lparr>current := c\<rparr>) else ((1, []), w))"
| "lab_exec (KubectlGetNamespace ns) w =
     ((if (current w, ns) \<in> set (namespaces w) then 0 else 1, []), w)"
| "lab_exec (KubectlCreateNamespace ns) w =
     (if (current w, ns) \<in> set (namespaces w) then ((1, []), w)
      else ((0, []), w\<lparr>namespaces := namespaces w @ [(current w, ns)]\<rparr>))"
| "lab_exec (HelmList ns) w = ((0, helm_rows w ns), w)"
| "lab_exec (HelmUpgrade r v ns wt) w =
     ((if (current w, ns, r) \<in> set (releases w) then 0 else 1, []), w)"
| "lab_exec (HelmInstall r v ns wt) w =
     (if (current w, ns, r) \<in> set (releases w) \<or> (current w, ns) \<notin> set (namespaces w)
      then ((1, []), w)
      else ((0, []), w\<lparr>releases := releases w @ [(current w, ns, r)]\<rparr>))"
| "lab_exec (HelmUninstall r ns) w =
     (if (current w, ns, r) \<in> set (releases w)
      then ((0, []), w\<lparr>releases := removeAll (current w, ns, r) (releases w)\<rparr>)
      else ((1, []), w))"
| "lab_exec (KubectlGetDeployments ns l) w = ((0, []), w)"
| "lab_exec (KubectlGetPods ns l) w = ((0, []), w)"
| "lab_exec (KubectlGetServices ns l) w = ((0, []), w)"

definition lab_sys :: "lab system" where
  "lab_sys = \<lparr>command_v = (\<lambda>t w. t \<in> set (path w)), exec = lab_exec\<rparr>"

text \<open>A fresh machine with the three tools and nothing else.\<close>

definition fresh :: lab where
  "fresh = \<lparr>path = [''helm'', ''kind'', ''kubectl''], clusters = [], contexts = [],
            current = [], namespaces = [], releases = []\<rparr>"

text \<open>Both environments deployed.\<close>

definition deployed :: lab where
  "deployed = \<lparr>path = [''helm'', ''kind'', ''kubectl''],
               clusters = [''nur-dev'', ''nur-prd''],
               contexts = [''kind-nur-dev'', ''kind-nur-prd''],
               current = ''kind-nur-prd'',
               namespaces = [(''kind-nur-dev'', ''dev''), (''kind-nur-prd'', ''prd'')],
               releases = [(''kind-nur-dev'', ''dev'', ''echo-server-dev''),
                           (''kind-nur-prd'', ''prd'', ''echo-server-prd'')]\<rparr>"

text \<open>The kubeconfig file was lost: the cluster of dev is there, its context is not.\<close>

definition lost_context :: lab where
  "lost_context = fresh\<lparr>clusters := [''nur-dev'']\<rparr>"

text \<open>Only dev is deployed, and the current context is the one of another cluster.\<close>

definition dev_only :: lab where
  "dev_only = \<lparr>path = [''helm'', ''kind'', ''kubectl''],
               clusters = [''nur-dev''],
               contexts = [''kind-nur-dev'', ''minikube''],
               current = ''minikube'',
               namespaces = [(''kind-nur-dev'', ''dev'')],
               releases = [(''kind-nur-dev'', ''dev'', ''echo-server-dev'')]\<rparr>"

text \<open>\<open>helm\<close> is not installed.\<close>

definition no_helm :: lab where
  "no_helm = deployed\<lparr>path := [''kind'', ''kubectl'']\<rparr>"

text \<open>
  The namespace of dev holds an older release, \<open>echo-server-dev-old\<close>, and no release
  \<open>echo-server-dev\<close>.
\<close>

definition old_dev :: lab where
  "old_dev = \<lparr>path = [''helm'', ''kind'', ''kubectl''],
              clusters = [''nur-dev''],
              contexts = [''kind-nur-dev''],
              current = ''kind-nur-dev'',
              namespaces = [(''kind-nur-dev'', ''dev'')],
              releases = [(''kind-nur-dev'', ''dev'', ''echo-server-dev-old'')]\<rparr>"

text \<open>
  Both clusters are there; dev has no release, and prd holds \<open>echo-server-prd-old\<close> and no
  release \<open>echo-server-prd\<close>.
\<close>

definition old_prd :: lab where
  "old_prd = deployed\<lparr>releases := [(''kind-nur-prd'', ''prd'', ''echo-server-prd-old'')]\<rparr>"

text \<open>
  The laboratory on a machine short of memory: \<open>helm install\<close> is killed, which the shell
  sees as status 137.
\<close>

definition oom_exec :: "cmd \<Rightarrow> lab \<Rightarrow> (nat \<times> string list) \<times> lab" where
  "oom_exec c w = (case c of HelmInstall r v ns wt \<Rightarrow> ((137, []), w) | _ \<Rightarrow> lab_exec c w)"

definition oom_sys :: "lab system" where
  "oom_sys = \<lparr>command_v = (\<lambda>t w. t \<in> set (path w)), exec = oom_exec\<rparr>"

section \<open>What the properties speak about\<close>

text \<open>
  What is asked of a cluster manager: a cluster whose creation succeeded is listed, and
  listing the clusters does not make one disappear.
\<close>

definition cluster_manager :: "'w system \<Rightarrow> bool" where
  "cluster_manager sys =
     ((\<forall>n w. status_of sys (KindCreateCluster n) w = 0 \<longrightarrow>
              cluster_listed sys n (after sys (KindCreateCluster n) w)) \<and>
      (\<forall>n w. cluster_listed sys n w \<longrightarrow> cluster_listed sys n (after sys KindGetClusters w)))"

text \<open>
  The commands whose failure ends the script under \<open>set -e\<close>: every command but the three
  that the script only runs inside a condition or as the left side of a pipeline
  (\<open>kind get clusters\<close> on line 29, \<open>kubectl get namespace\<close> on line 60, \<open>helm list\<close> on
  lines 68, 132, 133 and 159).
\<close>

fun checked :: "cmd \<Rightarrow> bool" where
  "checked KindGetClusters = False"
| "checked (KubectlGetNamespace ns) = False"
| "checked (HelmList ns) = False"
| "checked (KindCreateCluster n) = True"
| "checked (KubectlUseContext c) = True"
| "checked (KubectlCreateNamespace ns) = True"
| "checked (HelmUpgrade r v ns wt) = True"
| "checked (HelmInstall r v ns wt) = True"
| "checked (HelmUninstall r ns) = True"
| "checked (KubectlGetDeployments ns l) = True"
| "checked (KubectlGetPods ns l) = True"
| "checked (KubectlGetServices ns l) = True"

text \<open>The world after the commands \<open>cs\<close> have run one after the other from \<open>w\<close>.\<close>

fun replay :: "'w system \<Rightarrow> cmd list \<Rightarrow> 'w \<Rightarrow> 'w" where
  "replay sys [] w = w"
| "replay sys (c # cs) w = replay sys cs (after sys c w)"

text \<open>
  A step fails: in a run that started in \<open>w\<close> and has run the commands \<open>cs\<close>, the command
  \<open>c\<close> came right after the commands \<open>ps\<close>, is one that \<open>set -e\<close> watches, and returned a
  status other than 0 in the world it was started in.
\<close>

definition fails_at :: "'w system \<Rightarrow> 'w \<Rightarrow> cmd list \<Rightarrow> cmd list \<Rightarrow> cmd \<Rightarrow> bool" where
  "fails_at sys w cs ps c =
     (prefix (ps @ [c]) cs \<and> checked c \<and> status_of sys c (replay sys ps w) \<noteq> 0)"

text \<open>
  The first step of \<open>cs\<close> that fails, if there is one: the commands up to it and its
  status.
\<close>

fun first_failure :: "'w system \<Rightarrow> cmd list \<Rightarrow> 'w \<Rightarrow> (cmd list \<times> nat) option" where
  "first_failure sys [] w = None"
| "first_failure sys (c # cs) w =
     (if checked c \<and> status_of sys c w \<noteq> 0 then Some ([c], status_of sys c w)
      else map_option (\<lambda>(p, n). (c # p, n)) (first_failure sys cs (after sys c w)))"

text \<open>
  A piece of script follows \<open>set -e\<close>: the world changes through the commands only; a
  piece that falls through has run no failing step; a piece that ends the process has
  stopped at its first failing step, with the status of that step, or else, where \<open>ex\<close>
  allows it, has run no failing step and ends with status 1.
\<close>

definition set_e :: "'w system \<Rightarrow> bool \<Rightarrow> ('w, 'a) sh \<Rightarrow> bool" where
  "set_e sys ex m =
     (\<forall>w. final_world (m w) = replay sys (commands (events (m w))) w \<and>
          (case fst (m w) of
             Next a \<Rightarrow> first_failure sys (commands (events (m w))) w = None
           | Exit n \<Rightarrow>
               first_failure sys (commands (events (m w))) w = Some (commands (events (m w)), n) \<or>
               (ex \<and> n = 1 \<and> first_failure sys (commands (events (m w))) w = None)))"

text \<open>
  The steps of a deployment of one environment in the order of the specification, and
  the steps of the three deploying commands of \<open>main\<close>.
\<close>

definition env_plan :: "string \<Rightarrow> step list" where
  "env_plan ENV =
     [EnsureCluster, SwitchContext (''kind-nur-'' @ ENV), EnsureNamespace ENV, InstallOrUpgrade ENV]"

definition install_plan :: "string \<Rightarrow> step list" where
  "install_plan a =
     (if a = ''dev'' then env_plan ''dev''
      else if a = ''prd'' then env_plan ''prd''
      else if a = ''all'' then env_plan ''dev'' @ env_plan ''prd''
      else [])"

section \<open>Running the shell\<close>

lemma upper_dev: "upper ''dev'' = ''DEV''" by (simp add: upper_def upper_char_def)

lemmas sh_defs = ret_def exit_sh_def emit_def print_info_def print_error_def print_warning_def echo_def

lemma run_eq: "run sys c w = (Next (status_of sys c w, output_of sys c w), after sys c w, [Run c])"
  by (simp add: run_def status_of_def output_of_def after_def split: prod.splits)

lemma simple_eq:
  "simple sys c w = (if status_of sys c w = 0 then Next () else Exit (status_of sys c w), after sys c w, [Run c])"
  by (simp add: simple_def seq_def run_eq sh_defs)

lemma cluster_exists_eq:
  "cluster_exists sys n w = (Next (cluster_listed sys n w), after sys KindGetClusters w, [Run KindGetClusters])"
  by (simp add: cluster_exists_def seq_def run_eq sh_defs cluster_listed_def)

lemma release_listed_eq:
  "release_listed sys ns e w = (Next (release_shown sys ns e w), after sys (HelmList ns) w, [Run (HelmList ns)])"
  by (simp add: release_listed_def seq_def run_eq sh_defs release_shown_def)

lemmas step_eqs = seq_def run_eq simple_eq cluster_exists_eq release_listed_eq sh_defs

lemma commands_simps [simp]:
  "commands [] = []"
  "commands (Run c # t) = c # commands t"
  "commands (Info m # t) = commands t"
  "commands (Error m # t) = commands t"
  "commands (Warning m # t) = commands t"
  "commands (Echo m # t) = commands t"
  "commands (Usage # t) = commands t"
  "commands (t @ u) = commands t @ commands u"
  by (simp_all add: commands_def)

lemma events_seq:
  "events (seq m k w) =
     events (m w) @ (case fst (m w) of Next a \<Rightarrow> events (k a (final_world (m w))) | Exit n \<Rightarrow> [])"
  by (simp add: seq_def events_def final_world_def split: prod.splits flow.splits)

lemma fst_seq:
  "fst (seq m k w) = (case fst (m w) of Next a \<Rightarrow> fst (k a (final_world (m w))) | Exit n \<Rightarrow> Exit n)"
  by (simp add: seq_def final_world_def split: prod.splits flow.splits)

lemma final_world_seq:
  "final_world (seq m k w) =
     (case fst (m w) of Next a \<Rightarrow> final_world (k a (final_world (m w))) | Exit n \<Rightarrow> final_world (m w))"
  by (simp add: seq_def final_world_def split: prod.splits flow.splits)

lemma events_emit [simp]:
  "events (print_info m w) = [Info m]" "events (print_error m w) = [Error m]"
  "events (print_warning m w) = [Warning m]" "events (echo m w) = [Echo m]"
  "events (ret a w) = []" "events (exit_sh n w) = []" "events (emit e w) = [e]"
  by (simp_all add: sh_defs events_def)

lemma fst_emit [simp]:
  "fst (print_info m w) = Next ()" "fst (print_error m w) = Next ()"
  "fst (print_warning m w) = Next ()" "fst (echo m w) = Next ()"
  "fst (ret a w) = Next a" "fst (exit_sh n w) = Exit n" "fst (emit e w) = Next ()"
  by (simp_all add: sh_defs)

lemma final_world_emit [simp]:
  "final_world (print_info m w) = w" "final_world (print_error m w) = w"
  "final_world (print_warning m w) = w" "final_world (echo m w) = w"
  "final_world (ret a w) = w" "final_world (exit_sh n w) = w" "final_world (emit e w) = w"
  by (simp_all add: sh_defs final_world_def)

lemmas seq_simps = events_seq fst_seq final_world_seq

lemma ensure_cluster_cmds:
  "commands (events (ensure_cluster sys C w)) =
     KindGetClusters # (if cluster_listed sys C w then [] else [KindCreateCluster C])"
  by (simp add: ensure_cluster_def step_eqs events_def)

lemma switch_context_cmds:
  "commands (events (switch_context sys C w)) = [KubectlUseContext (''kind-'' @ C)]"
  by (simp add: switch_context_def step_eqs events_def)

lemma ensure_namespace_cmds:
  "commands (events (ensure_namespace sys N w)) =
     KubectlGetNamespace N #
     (if status_of sys (KubectlGetNamespace N) w = 0 then [] else [KubectlCreateNamespace N])"
  by (simp add: ensure_namespace_def step_eqs events_def)

lemma install_or_upgrade_cmds:
  "commands (events (install_or_upgrade sys E V N w)) =
     [HelmList N,
      if release_shown sys N E w then HelmUpgrade (''echo-server-'' @ E) V N True
      else HelmInstall (''echo-server-'' @ E) V N True]"
  by (simp add: install_or_upgrade_def step_eqs events_def)

lemma display_status_rank:
  "c \<in> set (commands (events (display_status sys E N w))) \<Longrightarrow> step_rank c = 5"
  by (auto simp add: display_status_def step_eqs events_def split: if_splits)

lemma display_status_sorted:
  "sorted (map step_rank (commands (events (display_status sys E N w))))"
  by (simp add: display_status_def step_eqs events_def)

lemma display_status_no_step:
  "List.map_filter step_of (commands (events (display_status sys E N w))) = []"
  by (simp add: display_status_def step_eqs events_def List.map_filter_simps)

lemma display_status_done:
  "fst (display_status sys E N w) = Next () \<Longrightarrow>
   commands (events (display_status sys E N w)) =
     [KubectlGetDeployments N (''environment='' @ E), KubectlGetPods N (''environment='' @ E),
      KubectlGetServices N (''environment='' @ E)]"
  by (simp add: display_status_def step_eqs events_def split: if_splits)

lemmas block_cmds = ensure_cluster_cmds switch_context_cmds ensure_namespace_cmds install_or_upgrade_cmds


subsection \<open>The parts of a run\<close>

lemma run_parts [simp]:
  "events (run sys c w) = [Run c]"
  "fst (run sys c w) = Next (status_of sys c w, output_of sys c w)"
  "final_world (run sys c w) = after sys c w"
  by (simp_all add: run_eq events_def final_world_def)

lemma simple_parts [simp]:
  "events (simple sys c w) = [Run c]"
  "fst (simple sys c w) = (if status_of sys c w = 0 then Next () else Exit (status_of sys c w))"
  "final_world (simple sys c w) = after sys c w"
  by (simp_all add: simple_eq events_def final_world_def)

lemma cluster_exists_parts [simp]:
  "events (cluster_exists sys n w) = [Run KindGetClusters]"
  "fst (cluster_exists sys n w) = Next (cluster_listed sys n w)"
  "final_world (cluster_exists sys n w) = after sys KindGetClusters w"
  by (simp_all add: cluster_exists_eq events_def final_world_def)

lemma release_listed_parts [simp]:
  "events (release_listed sys ns e w) = [Run (HelmList ns)]"
  "fst (release_listed sys ns e w) = Next (release_shown sys ns e w)"
  "final_world (release_listed sys ns e w) = after sys (HelmList ns) w"
  by (simp_all add: release_listed_eq events_def final_world_def)

lemma for_each_echo [simp]:
  "events (for_each echo ls w) = map Echo ls"
  "fst (for_each echo ls w) = Next ()"
  "final_world (for_each echo ls w) = w"
  by (induction ls arbitrary: w) (simp_all add: seq_simps)

lemma commands_echo [simp]: "commands (map Echo ls) = []"
  by (induction ls) simp_all

lemma seq_Exit: "fst (m w) = Exit n \<Longrightarrow> seq m k w = (Exit n, final_world (m w), events (m w))"
  by (cases "m w") (auto simp add: seq_def final_world_def events_def)

lemma seq_Exit_same:
  fixes m :: "('w, 'a) sh" and k :: "'a \<Rightarrow> ('w, 'a) sh"
  shows "fst (m w) = Exit n \<Longrightarrow> seq m k w = m w"
  by (cases "m w") (auto simp add: seq_def)

lemmas block_defs = deploy_environment_def ensure_cluster_def switch_context_def ensure_namespace_def
  install_or_upgrade_def display_status_def

subsection \<open>Steps that fail\<close>

lemma replay_append: "replay sys (xs @ ys) w = replay sys ys (replay sys xs w)"
  by (induction xs arbitrary: w) simp_all

lemma first_failure_append:
  "first_failure sys (xs @ ys) w =
     (case first_failure sys xs w of
        Some r \<Rightarrow> Some r
      | None \<Rightarrow> map_option (\<lambda>(p, n). (xs @ p, n)) (first_failure sys ys (replay sys xs w)))"
proof (induction xs arbitrary: w)
  case Nil
  show ?case by (simp add: option.map_ident split_def)
next
  case (Cons x xs)
  show ?case
    by (simp add: Cons option.map_comp comp_def split_def split: option.splits)
qed

lemma first_failure_none: "first_failure sys cs w = None \<Longrightarrow> \<not> fails_at sys w cs ps c"
proof (induction cs arbitrary: w ps)
  case Nil
  then show ?case by (simp add: fails_at_def)
next
  case (Cons x xs)
  from Cons.prems have here: "\<not> (checked x \<and> status_of sys x w \<noteq> 0)"
    and rest: "first_failure sys xs (after sys x w) = None"
    by (simp_all split: if_splits)
  show ?case
  proof (cases ps)
    case Nil
    then show ?thesis using here by (auto simp add: fails_at_def)
  next
    case (Cons p ps')
    have "\<not> fails_at sys (after sys x w) xs ps' c" using Cons.IH [OF rest] .
    then show ?thesis using Cons by (auto simp add: fails_at_def)
  qed
qed

lemma first_failure_whole:
  "first_failure sys cs w = Some (cs, n) \<Longrightarrow> fails_at sys w cs ps c \<Longrightarrow>
     cs = ps @ [c] \<and> n = status_of sys c (replay sys ps w)"
proof (induction cs arbitrary: w ps)
  case Nil
  then show ?case by simp
next
  case (Cons x xs)
  show ?case
  proof (cases "checked x \<and> status_of sys x w \<noteq> 0")
    case True
    then have "xs = []" and "n = status_of sys x w" using Cons.prems(1) by simp_all
    then show ?thesis using Cons.prems(2) by (cases ps) (auto simp add: fails_at_def)
  next
    case False
    then have rest: "first_failure sys xs (after sys x w) = Some (xs, n)"
      using Cons.prems(1) by (auto simp add: split_def)
    show ?thesis
    proof (cases ps)
      case Nil
      then show ?thesis using False Cons.prems(2) by (auto simp add: fails_at_def)
    next
      case (Cons p ps')
      then have "p = x" and "fails_at sys (after sys x w) xs ps' c"
        using Cons.prems(2) by (auto simp add: fails_at_def)
      then show ?thesis using Cons.IH [OF rest, of ps'] Cons by simp
    qed
  qed
qed

lemma first_failure_some:
  "first_failure sys cs w = Some (p, n) \<Longrightarrow> n \<noteq> 0 \<and> (\<exists>ps c. fails_at sys w cs ps c)"
proof (induction cs arbitrary: w p)
  case Nil
  then show ?case by simp
next
  case (Cons x xs)
  show ?case
  proof (cases "checked x \<and> status_of sys x w \<noteq> 0")
    case True
    then have "n \<noteq> 0" using Cons.prems by auto
    moreover have "fails_at sys w (x # xs) [] x" using True by (simp add: fails_at_def)
    ultimately show ?thesis by blast
  next
    case False
    then obtain q where "first_failure sys xs (after sys x w) = Some (q, n)"
      using Cons.prems by (auto simp add: split_def)
    then obtain ps c where "n \<noteq> 0" and "fails_at sys (after sys x w) xs ps c"
      using Cons.IH by blast
    then have "fails_at sys w (x # xs) (x # ps) c" by (simp add: fails_at_def)
    then show ?thesis using \<open>n \<noteq> 0\<close> by blast
  qed
qed

subsection \<open>The script follows \<open>set -e\<close>\<close>

lemma set_e_basic:
  "set_e sys ex (ret a)"
  "set_e sys ex (print_info msg)"
  "set_e sys ex (print_error msg)"
  "set_e sys ex (print_warning msg)"
  "set_e sys ex (echo msg)"
  "set_e sys ex show_usage"
  "set_e sys True (exit_sh 1)"
  "set_e sys ex (run sys KindGetClusters)"
  "set_e sys ex (run sys (KubectlGetNamespace ns))"
  "set_e sys ex (run sys (HelmList ns))"
  "set_e sys ex (cluster_exists sys name)"
  "set_e sys ex (release_listed sys ns env)"
  by (simp_all add: set_e_def show_usage_def)

lemma set_e_simple: "checked c \<Longrightarrow> set_e sys ex (simple sys c)"
  by (simp add: set_e_def)

lemma set_eD:
  "set_e sys ex m \<Longrightarrow>
     final_world (m w) = replay sys (commands (events (m w))) w \<and>
     (case fst (m w) of
        Next a \<Rightarrow> first_failure sys (commands (events (m w))) w = None
      | Exit n \<Rightarrow>
          first_failure sys (commands (events (m w))) w = Some (commands (events (m w)), n) \<or>
          (ex \<and> n = 1 \<and> first_failure sys (commands (events (m w))) w = None))"
  by (simp add: set_e_def)

lemma set_e_seq:
  assumes "set_e sys ex m" and "\<And>a. set_e sys ex (k a)"
  shows "set_e sys ex (seq m k)"
  unfolding set_e_def
proof (intro allI)
  fix w
  show "final_world (seq m k w) = replay sys (commands (events (seq m k w))) w \<and>
          (case fst (seq m k w) of
             Next a \<Rightarrow> first_failure sys (commands (events (seq m k w))) w = None
           | Exit n \<Rightarrow>
               first_failure sys (commands (events (seq m k w))) w =
                 Some (commands (events (seq m k w)), n) \<or>
               (ex \<and> n = 1 \<and> first_failure sys (commands (events (seq m k w))) w = None))"
  proof (cases "fst (m w)")
    case (Exit n)
    then show ?thesis using set_eD [OF assms(1), of w] by (simp add: seq_simps)
  next
    case (Next a)
    let ?v = "final_world (m w)"
    show ?thesis
      using set_eD [OF assms(1), of w] set_eD [OF assms(2), of a ?v] Next
      by (auto simp add: seq_simps replay_append first_failure_append split: flow.splits)
  qed
qed

lemma set_e_if:
  "set_e sys ex m1 \<Longrightarrow> set_e sys ex m2 \<Longrightarrow> set_e sys ex (if b then m1 else m2)"
  by simp

lemma set_e_for_each:
  "(\<And>x. set_e sys ex (body x)) \<Longrightarrow> set_e sys ex (for_each body xs)"
  by (induction xs) (simp_all add: set_e_basic set_e_seq)

lemma checked_simps:
  "checked (KindCreateCluster n)" "checked (KubectlUseContext c)"
  "checked (KubectlCreateNamespace ns)" "checked (HelmUpgrade r v ns wt)"
  "checked (HelmInstall r v ns wt)" "checked (HelmUninstall r ns)"
  "checked (KubectlGetDeployments ns l)" "checked (KubectlGetPods ns l)"
  "checked (KubectlGetServices ns l)"
  by simp_all

lemmas set_e_intros = set_e_basic set_e_simple set_e_seq set_e_if set_e_for_each checked_simps

lemma set_e_deploy_environment: "set_e sys ex (deploy_environment sys E C V N)"
  unfolding block_defs by (intro set_e_intros)

lemma set_e_clean_deployments: "set_e sys ex (clean_deployments sys)"
  unfolding clean_deployments_def clean_env_def Let_def by (intro set_e_intros)

lemma set_e_show_status: "set_e sys True (show_status sys)"
  unfolding show_status_def status_env_def Let_def by (intro set_e_intros)

lemma set_e_dispatch: "set_e sys True (dispatch sys a)"
  unfolding dispatch_def
  by (intro set_e_intros set_e_deploy_environment set_e_show_status set_e_clean_deployments)

subsection \<open>Running on the laboratory\<close>

lemma lab_simps [simp]:
  "command_v lab_sys t w = (t \<in> set (path w))"
  "exec lab_sys = lab_exec"
  "command_v oom_sys t w = (t \<in> set (path w))"
  "exec oom_sys = oom_exec"
  by (simp_all add: lab_sys_def oom_sys_def)

lemma lab_status: "status_of lab_sys c v \<le> 1"
  by (cases c) (simp_all add: status_of_def)

lemmas lab_eval = main_def check_prerequisites_def check_tool_def dispatch_def first_arg_def
  block_defs cluster_exists_def release_listed_def seq_def run_def simple_def sh_defs
  show_status_def status_env_def clean_deployments_def clean_env_def show_usage_def Let_def
  upper_def upper_char_def
  grep_def grep_line_def line_matches_def wild_def helm_rows_def
  exit_status_def events_def final_world_def tools_present_def
  fresh_def deployed_def lost_context_def dev_only_def no_helm_def old_dev_def old_prd_def

section \<open>The properties\<close>

subsection \<open>The prerequisite checks\<close>

lemma check_prerequisites_eq:
  "check_prerequisites sys w =
     (if tools_present sys w then (Next (), w, [])
      else (Exit 1, w,
        [Error (if \<not> command_v sys ''helm'' w then ''Helm is not installed. Please install Helm first.''
                else if \<not> command_v sys ''kind'' w then ''kind is not installed. Please install kind first.''
                else ''kubectl is not installed. Please install kubectl first.'')]))"
  by (simp add: check_prerequisites_def check_tool_def seq_def sh_defs tools_present_def)

lemma main_missing:
  "\<not> tools_present sys w \<Longrightarrow> \<exists>msg. main sys args w = (Exit 1, w, [Error msg])"
  by (simp add: main_def seq_def check_prerequisites_eq)

lemma main_present:
  "tools_present sys w \<Longrightarrow> main sys args w = dispatch sys (first_arg args) w"
  by (simp add: main_def seq_def check_prerequisites_eq split: prod.splits flow.splits)

text \<open>
  C10.  Whatever the command is, \<open>help\<close> and \<open>status\<close> included, the three checks of
  \<open>helm\<close>, \<open>kind\<close> and \<open>kubectl\<close> come before the \<open>case\<close>: when one of the tools is
  missing the script ends with status 1, prints one error line, starts no external
  command and leaves the world as it was.
\<close>

theorem prerequisites_before_dispatch:
  assumes "\<not> tools_present sys w"
  shows "exit_status (main sys args w) = 1 \<and> final_world (main sys args w) = w \<and>
         commands (events (main sys args w)) = [] \<and>
         (\<exists>msg. events (main sys args w) = [Error msg])"
  using main_missing [OF assms, of args]
  by (auto simp add: exit_status_def final_world_def events_def)

theorem prerequisites_before_dispatch_witness:
  "\<not> tools_present lab_sys no_helm \<and>
   exit_status (main lab_sys [''help''] no_helm) = 1 \<and>
   final_world (main lab_sys [''help''] no_helm) = no_helm \<and>
   commands (events (main lab_sys [''help''] no_helm)) = []"
proof -
  have h: "\<not> tools_present lab_sys no_helm"
    by (simp add: tools_present_def no_helm_def deployed_def)
  show ?thesis using h prerequisites_before_dispatch [OF h, of "[''help'']"] by simp
qed

subsection \<open>What a failing step does\<close>

lemma set_e_failure:
  assumes "set_e sys ex m" and "fails_at sys w (commands (events (m w))) ps c"
  shows "commands (events (m w)) = ps @ [c]"
    and "fst (m w) = Exit (status_of sys c (replay sys ps w))"
    and "final_world (m w) = after sys c (replay sys ps w)"
proof -
  have some: "first_failure sys (commands (events (m w))) w \<noteq> None"
  proof
    assume "first_failure sys (commands (events (m w))) w = None"
    from first_failure_none [OF this] show False using assms(2) by simp
  qed
  then obtain n where n: "fst (m w) = Exit n"
    and whole: "first_failure sys (commands (events (m w))) w = Some (commands (events (m w)), n)"
    using set_eD [OF assms(1), of w] by (cases "fst (m w)") auto
  have eq: "commands (events (m w)) = ps @ [c] \<and> n = status_of sys c (replay sys ps w)"
    using first_failure_whole [OF whole assms(2)] .
  show "commands (events (m w)) = ps @ [c]" using eq by simp
  show "fst (m w) = Exit (status_of sys c (replay sys ps w))" using eq n by simp
  have "final_world (m w) = replay sys (ps @ [c]) w" using set_eD [OF assms(1), of w] eq by simp
  then show "final_world (m w) = after sys c (replay sys ps w)" by (simp add: replay_append)
qed

lemma set_e_nonzero:
  assumes "set_e sys ex m" and "fst (m w) = Exit n"
  shows "n \<noteq> 0"
  using set_eD [OF assms(1), of w] assms(2) first_failure_some [of sys "commands (events (m w))" w]
  by auto

lemma set_e_no_failure:
  assumes "set_e sys False m" and "\<forall>ps c. \<not> fails_at sys w (commands (events (m w))) ps c"
  shows "\<exists>a. fst (m w) = Next a"
proof (cases "fst (m w)")
  case (Next a)
  then show ?thesis by blast
next
  case (Exit n)
  then have "first_failure sys (commands (events (m w))) w = Some (commands (events (m w)), n)"
    using set_eD [OF assms(1), of w] by simp
  from first_failure_some [OF this] show ?thesis using assms(2) by simp
qed

lemma set_e_exit_one:
  assumes "set_e sys ex m" and "\<forall>ps c. \<not> fails_at sys w (commands (events (m w))) ps c"
    and "fst (m w) = Exit n"
  shows "n = 1"
proof -
  have "first_failure sys (commands (events (m w))) w \<noteq> Some (commands (events (m w)), n)"
  proof
    assume "first_failure sys (commands (events (m w))) w = Some (commands (events (m w)), n)"
    from first_failure_some [OF this] show False using assms(2) by simp
  qed
  then show ?thesis using set_eD [OF assms(1), of w] assms(3) by simp
qed

subsection \<open>A failure during \<open>deploy.sh all\<close>\<close>

text \<open>
  C1, as the script has it.  A step of the deployment of dev that fails ends
  \<open>deploy.sh all\<close> there: the failing command is the last command of the whole run, the
  status of the process is the status of that command, and nothing is done for prd.  The
  deployment of prd follows, after the separating lines, exactly when no step of dev
  has failed.
\<close>

theorem deploy_all_stops_at_first_failure:
  assumes "tools_present sys w"
  shows "(fails_at sys w
            (commands (events (deploy_environment sys ''dev'' ''nur-dev'' ''values-dev.yaml'' ''dev'' w)))
            ps c \<longrightarrow>
          main sys [''all''] w =
            deploy_environment sys ''dev'' ''nur-dev'' ''values-dev.yaml'' ''dev'' w \<and>
          commands (events (main sys [''all''] w)) = ps @ [c] \<and>
          exit_status (main sys [''all''] w) = status_of sys c (replay sys ps w) \<and>
          final_world (main sys [''all''] w) = after sys c (replay sys ps w)) \<and>
         ((\<forall>qs d. \<not> fails_at sys w
            (commands (events (deploy_environment sys ''dev'' ''nur-dev'' ''values-dev.yaml'' ''dev'' w)))
            qs d) \<longrightarrow>
          fst (deploy_environment sys ''dev'' ''nur-dev'' ''values-dev.yaml'' ''dev'' w) = Next () \<and>
          events (main sys [''all''] w) =
            events (deploy_environment sys ''dev'' ''nur-dev'' ''values-dev.yaml'' ''dev'' w) @
            [Echo [], Info ''=========================================='', Echo []] @
            events (deploy_environment sys ''prd'' ''nur-prd'' ''values-prd.yaml'' ''prd''
              (final_world (deploy_environment sys ''dev'' ''nur-dev'' ''values-dev.yaml'' ''dev'' w))))"
proof (intro conjI impI)
  let ?d = "deploy_environment sys ''dev'' ''nur-dev'' ''values-dev.yaml'' ''dev''"
  have all: "main sys [''all''] w = dispatch sys ''all'' w"
    using assms by (simp add: main_present first_arg_def)
  {
    assume f: "fails_at sys w (commands (events (?d w))) ps c"
    have e: "fst (?d w) = Exit (status_of sys c (replay sys ps w))"
      using set_e_failure(2) [OF set_e_deploy_environment f] .
    show m: "main sys [''all''] w = ?d w"
      using e by (simp add: all dispatch_def seq_Exit_same)
    show "commands (events (main sys [''all''] w)) = ps @ [c]"
      using set_e_failure(1) [OF set_e_deploy_environment f] m by simp
    show "exit_status (main sys [''all''] w) = status_of sys c (replay sys ps w)"
      using e m by (simp add: exit_status_def)
    show "final_world (main sys [''all''] w) = after sys c (replay sys ps w)"
      using set_e_failure(3) [OF set_e_deploy_environment f] m by simp
  }
  {
    assume n: "\<forall>qs d. \<not> fails_at sys w (commands (events (?d w))) qs d"
    show g: "fst (?d w) = Next ()"
      using set_e_no_failure [OF set_e_deploy_environment n] by simp
    show "events (main sys [''all''] w) =
            events (?d w) @ [Echo [], Info ''=========================================='', Echo []] @
            events (deploy_environment sys ''prd'' ''nur-prd'' ''values-prd.yaml'' ''prd''
              (final_world (?d w)))"
      using g by (simp add: all dispatch_def seq_simps)
  }
qed

lemma lost_context_failure:
  "fails_at lab_sys lost_context
     (commands (events (deploy_environment lab_sys ''dev'' ''nur-dev'' ''values-dev.yaml'' ''dev''
        lost_context)))
     [KindGetClusters] (KubectlUseContext ''kind-nur-dev'')"
  by (simp add: fails_at_def status_of_def after_def lab_eval)

lemma fresh_no_failure:
  "\<forall>qs d. \<not> fails_at lab_sys fresh
     (commands (events (deploy_environment lab_sys ''dev'' ''nur-dev'' ''values-dev.yaml'' ''dev'' fresh)))
     qs d"
proof -
  have "first_failure lab_sys
     (commands (events (deploy_environment lab_sys ''dev'' ''nur-dev'' ''values-dev.yaml'' ''dev'' fresh)))
     fresh = None"
    by (simp add: status_of_def after_def lab_eval)
  then have "\<not> fails_at lab_sys fresh
     (commands (events (deploy_environment lab_sys ''dev'' ''nur-dev'' ''values-dev.yaml'' ''dev'' fresh)))
     qs d" for qs d
    by (rule first_failure_none)
  then show ?thesis by simp
qed

theorem deploy_all_stops_at_first_failure_witness:
  "tools_present lab_sys lost_context \<and> tools_present lab_sys fresh \<and>
   fails_at lab_sys lost_context
     (commands (events (deploy_environment lab_sys ''dev'' ''nur-dev'' ''values-dev.yaml'' ''dev''
        lost_context)))
     [KindGetClusters] (KubectlUseContext ''kind-nur-dev'') \<and>
   commands (events (main lab_sys [''all''] lost_context)) =
     [KindGetClusters, KubectlUseContext ''kind-nur-dev''] \<and>
   exit_status (main lab_sys [''all''] lost_context) = 1 \<and>
   (\<forall>qs d. \<not> fails_at lab_sys fresh
     (commands (events (deploy_environment lab_sys ''dev'' ''nur-dev'' ''values-dev.yaml'' ''dev'' fresh)))
     qs d) \<and>
   events (main lab_sys [''all''] fresh) =
     events (deploy_environment lab_sys ''dev'' ''nur-dev'' ''values-dev.yaml'' ''dev'' fresh) @
     [Echo [], Info ''=========================================='', Echo []] @
     events (deploy_environment lab_sys ''prd'' ''nur-prd'' ''values-prd.yaml'' ''prd''
       (final_world (deploy_environment lab_sys ''dev'' ''nur-dev'' ''values-dev.yaml'' ''dev'' fresh)))"
proof -
  have a: "tools_present lab_sys lost_context" by (simp add: lab_eval)
  have b: "tools_present lab_sys fresh" by (simp add: lab_eval)
  have s: "status_of lab_sys (KubectlUseContext ''kind-nur-dev'')
             (replay lab_sys [KindGetClusters] lost_context) = 1"
    by (simp add: status_of_def after_def lab_eval)
  have t1: "commands (events (main lab_sys [''all''] lost_context)) =
              [KindGetClusters] @ [KubectlUseContext ''kind-nur-dev''] \<and>
            exit_status (main lab_sys [''all''] lost_context) =
              status_of lab_sys (KubectlUseContext ''kind-nur-dev'')
                (replay lab_sys [KindGetClusters] lost_context)"
    using lost_context_failure
      deploy_all_stops_at_first_failure [OF a, of "[KindGetClusters]" "KubectlUseContext ''kind-nur-dev''"]
    by blast
  have t2: "events (main lab_sys [''all''] fresh) =
     events (deploy_environment lab_sys ''dev'' ''nur-dev'' ''values-dev.yaml'' ''dev'' fresh) @
     [Echo [], Info ''=========================================='', Echo []] @
     events (deploy_environment lab_sys ''prd'' ''nur-prd'' ''values-prd.yaml'' ''prd''
       (final_world (deploy_environment lab_sys ''dev'' ''nur-dev'' ''values-dev.yaml'' ''dev'' fresh)))"
    using fresh_no_failure deploy_all_stops_at_first_failure [OF b] by blast
  show ?thesis
    using a b s lost_context_failure fresh_no_failure t1 t2 by simp
qed

text \<open>
  C1 as stated fails.  With the cluster of dev present and its context lost, switching
  the context fails and \<open>deploy.sh all\<close> runs two commands in all, none of them for prd.
\<close>

theorem deploy_all_isolation_counterexample:
  "tools_present lab_sys lost_context \<and>
   fst (deploy_environment lab_sys ''dev'' ''nur-dev'' ''values-dev.yaml'' ''dev'' lost_context) = Exit 1 \<and>
   commands (events (main lab_sys [''all''] lost_context)) =
     [KindGetClusters, KubectlUseContext ''kind-nur-dev'']"
  by (simp add: lab_eval)

subsection \<open>The order of a deployment\<close>

text \<open>
  C2.  One deployment runs its commands in the order cluster, context, namespace,
  release, display: no command of a later kind comes before one of an earlier kind.
  The cluster is created exactly when \<open>kind get clusters\<close> does not list it, and a
  deployment that runs to its end has run, in this order, the listing of the clusters
  (and the creation), the switch of context, the query of the namespace (and its
  creation), \<open>helm list\<close>, the upgrade or the installation, and the three displays.
\<close>

theorem deploy_environment_order:
  "sorted (map step_rank (commands (events (deploy_environment sys E C V N w)))) \<and>
   (KindCreateCluster C \<in> set (commands (events (deploy_environment sys E C V N w)))
      \<longleftrightarrow> \<not> cluster_listed sys C w) \<and>
   (fst (deploy_environment sys E C V N w) = Next () \<longrightarrow>
      (\<exists>cr cn iu.
         commands (events (deploy_environment sys E C V N w)) =
           [KindGetClusters] @ cr @
           [KubectlUseContext (''kind-'' @ C), KubectlGetNamespace N] @ cn @
           [HelmList N, iu,
            KubectlGetDeployments N (''environment='' @ E),
            KubectlGetPods N (''environment='' @ E),
            KubectlGetServices N (''environment='' @ E)] \<and>
         (cr = [] \<or> cr = [KindCreateCluster C]) \<and>
         (cn = [] \<or> cn = [KubectlCreateNamespace N]) \<and>
         (iu = HelmUpgrade (''echo-server-'' @ E) V N True \<or>
          iu = HelmInstall (''echo-server-'' @ E) V N True)))"
proof (intro conjI impI)
  show "sorted (map step_rank (commands (events (deploy_environment sys E C V N w))))"
    by (simp add: deploy_environment_def seq_simps block_cmds display_status_sorted
        display_status_rank sorted_append split: flow.splits)
  show "KindCreateCluster C \<in> set (commands (events (deploy_environment sys E C V N w)))
      \<longleftrightarrow> \<not> cluster_listed sys C w"
    by (auto simp add: deploy_environment_def seq_simps block_cmds dest: display_status_rank
        split: flow.splits)
next
  assume run: "fst (deploy_environment sys E C V N w) = Next ()"
  let ?w2 = "final_world (switch_context sys C (final_world (ensure_cluster sys C w)))"
  let ?cr = "if cluster_listed sys C w then [] else [KindCreateCluster C]"
  let ?cn = "if status_of sys (KubectlGetNamespace N) ?w2 = 0 then []
             else [KubectlCreateNamespace N]"
  let ?iu = "if release_shown sys N E (final_world (ensure_namespace sys N ?w2))
             then HelmUpgrade (''echo-server-'' @ E) V N True
             else HelmInstall (''echo-server-'' @ E) V N True"
  have "commands (events (deploy_environment sys E C V N w)) =
           [KindGetClusters] @ ?cr @
           [KubectlUseContext (''kind-'' @ C), KubectlGetNamespace N] @ ?cn @
           [HelmList N, ?iu,
            KubectlGetDeployments N (''environment='' @ E),
            KubectlGetPods N (''environment='' @ E),
            KubectlGetServices N (''environment='' @ E)]"
    using run
    by (simp add: deploy_environment_def seq_simps block_cmds display_status_done
        split: flow.splits)
  moreover have "?cr = [] \<or> ?cr = [KindCreateCluster C]" by simp
  moreover have "?cn = [] \<or> ?cn = [KubectlCreateNamespace N]" by simp
  moreover have "?iu = HelmUpgrade (''echo-server-'' @ E) V N True \<or>
                 ?iu = HelmInstall (''echo-server-'' @ E) V N True" by simp
  ultimately show "\<exists>cr cn iu.
         commands (events (deploy_environment sys E C V N w)) =
           [KindGetClusters] @ cr @
           [KubectlUseContext (''kind-'' @ C), KubectlGetNamespace N] @ cn @
           [HelmList N, iu,
            KubectlGetDeployments N (''environment='' @ E),
            KubectlGetPods N (''environment='' @ E),
            KubectlGetServices N (''environment='' @ E)] \<and>
         (cr = [] \<or> cr = [KindCreateCluster C]) \<and>
         (cn = [] \<or> cn = [KubectlCreateNamespace N]) \<and>
         (iu = HelmUpgrade (''echo-server-'' @ E) V N True \<or>
          iu = HelmInstall (''echo-server-'' @ E) V N True)"
    by blast
qed

theorem deploy_environment_order_witness:
  "fst (deploy_environment lab_sys ''dev'' ''nur-dev'' ''values-dev.yaml'' ''dev'' fresh) = Next () \<and>
   commands (events (deploy_environment lab_sys ''dev'' ''nur-dev'' ''values-dev.yaml'' ''dev'' fresh)) =
     [KindGetClusters, KindCreateCluster ''nur-dev'', KubectlUseContext ''kind-nur-dev'',
      KubectlGetNamespace ''dev'', KubectlCreateNamespace ''dev'', HelmList ''dev'',
      HelmInstall ''echo-server-dev'' ''values-dev.yaml'' ''dev'' True,
      KubectlGetDeployments ''dev'' ''environment=dev'', KubectlGetPods ''dev'' ''environment=dev'',
      KubectlGetServices ''dev'' ''environment=dev''] \<and>
   sorted (map step_rank
     (commands (events (deploy_environment lab_sys ''dev'' ''nur-dev'' ''values-dev.yaml'' ''dev'' fresh))))"
proof -
  have a: "fst (deploy_environment lab_sys ''dev'' ''nur-dev'' ''values-dev.yaml'' ''dev'' fresh) = Next ()"
    by (simp add: lab_eval)
  have b: "commands (events (deploy_environment lab_sys ''dev'' ''nur-dev'' ''values-dev.yaml'' ''dev'' fresh)) =
     [KindGetClusters, KindCreateCluster ''nur-dev'', KubectlUseContext ''kind-nur-dev'',
      KubectlGetNamespace ''dev'', KubectlCreateNamespace ''dev'', HelmList ''dev'',
      HelmInstall ''echo-server-dev'' ''values-dev.yaml'' ''dev'' True,
      KubectlGetDeployments ''dev'' ''environment=dev'', KubectlGetPods ''dev'' ''environment=dev'',
      KubectlGetServices ''dev'' ''environment=dev'']"
    by (simp add: lab_eval)
  show ?thesis
    using a b deploy_environment_order [of lab_sys "''dev''" "''nur-dev''" "''values-dev.yaml''" "''dev''" fresh]
    by blast
qed

subsection \<open>The status of a missing cluster\<close>

text \<open>
  C6.  When \<open>kind get clusters\<close> does not list the cluster of an environment, \<open>status\<close>
  does one thing for it: after that listing it prints the warning that the cluster does
  not exist, and an empty line.  No \<open>helm\<close> and no \<open>kubectl\<close> command is started.
\<close>

theorem missing_cluster_status:
  assumes "plain_name ENV" and "\<not> cluster_listed sys (''nur-'' @ ENV) w"
  shows "status_env sys ENV w =
     (Next (), after sys KindGetClusters w,
      [Run KindGetClusters, Warning (''Cluster kind-nur-'' @ ENV @ '' does not exist''), Echo []])"
  using assms(2) by (simp add: status_env_def Let_def step_eqs)

theorem missing_cluster_status_witness:
  "plain_name ''prd'' \<and> \<not> cluster_listed lab_sys ''nur-prd'' dev_only \<and>
   status_env lab_sys ''prd'' dev_only =
     (Next (), dev_only,
      [Run KindGetClusters, Warning ''Cluster kind-nur-prd does not exist'', Echo []])"
proof -
  have p: "plain_name ''prd''" by (simp add: plain_name_def)
  have c: "\<not> cluster_listed lab_sys ''nur-prd'' dev_only"
    by (simp add: cluster_listed_def output_of_def lab_eval)
  show ?thesis
    using p c missing_cluster_status [OF p, of lab_sys dev_only]
    by (simp add: after_def)
qed

subsection \<open>Ensuring a cluster twice\<close>

lemma ensure_cluster_fst:
  "fst (ensure_cluster sys C w) =
     (if cluster_listed sys C w then Next ()
      else if status_of sys (KindCreateCluster C) (after sys KindGetClusters w) = 0 then Next ()
      else Exit (status_of sys (KindCreateCluster C) (after sys KindGetClusters w)))"
  by (simp add: ensure_cluster_def step_eqs)

lemma ensure_cluster_world:
  "final_world (ensure_cluster sys C w) =
     (if cluster_listed sys C w then after sys KindGetClusters w
      else after sys (KindCreateCluster C) (after sys KindGetClusters w))"
  by (simp add: ensure_cluster_def step_eqs final_world_def)

lemma line_matches_refl: "line_matches n n"
  by (simp add: line_matches_def wild_def list_all2_same)

lemma lab_cluster_manager: "cluster_manager lab_sys"
  by (auto simp add: cluster_manager_def cluster_listed_def status_of_def output_of_def after_def
      grep_line_def filter_empty_conv line_matches_refl split: if_splits)

text \<open>
  C3.  Ensuring a cluster twice: when the first passage through lines 46-53 has gone
  well, the second one, in the world the first has left, goes well too and starts one
  command only, \<open>kind get clusters\<close>; no creation is asked for again.  The cluster manager
  is one that lists the clusters it has created.
\<close>

theorem ensure_cluster_twice:
  assumes "cluster_manager sys" and "plain_name n"
    and "fst (ensure_cluster sys n w) = Next ()"
  shows "fst (ensure_cluster sys n (final_world (ensure_cluster sys n w))) = Next () \<and>
         commands (events (ensure_cluster sys n (final_world (ensure_cluster sys n w)))) =
           [KindGetClusters]"
proof -
  have "cluster_listed sys n (final_world (ensure_cluster sys n w))"
  proof (cases "cluster_listed sys n w")
    case True
    then show ?thesis using assms(1) by (simp add: ensure_cluster_world cluster_manager_def)
  next
    case False
    then have "status_of sys (KindCreateCluster n) (after sys KindGetClusters w) = 0"
      using assms(3) by (simp add: ensure_cluster_fst split: if_splits)
    then show ?thesis using False assms(1) by (simp add: ensure_cluster_world cluster_manager_def)
  qed
  then show ?thesis by (simp add: ensure_cluster_fst ensure_cluster_cmds)
qed

theorem ensure_cluster_twice_witness:
  "cluster_manager lab_sys \<and> plain_name ''nur-dev'' \<and>
   fst (ensure_cluster lab_sys ''nur-dev'' fresh) = Next () \<and>
   commands (events (ensure_cluster lab_sys ''nur-dev'' fresh)) =
     [KindGetClusters, KindCreateCluster ''nur-dev''] \<and>
   fst (ensure_cluster lab_sys ''nur-dev'' (final_world (ensure_cluster lab_sys ''nur-dev'' fresh))) = Next () \<and>
   commands (events (ensure_cluster lab_sys ''nur-dev''
       (final_world (ensure_cluster lab_sys ''nur-dev'' fresh)))) = [KindGetClusters]"
proof -
  have p: "plain_name ''nur-dev''" by (simp add: plain_name_def)
  have a: "fst (ensure_cluster lab_sys ''nur-dev'' fresh) = Next ()" by (simp add: lab_eval)
  have b: "commands (events (ensure_cluster lab_sys ''nur-dev'' fresh)) =
     [KindGetClusters, KindCreateCluster ''nur-dev'']" by (simp add: lab_eval)
  show ?thesis
    using p a b lab_cluster_manager ensure_cluster_twice [OF lab_cluster_manager p a]
    by simp
qed

subsection \<open>What \<open>status\<close> runs\<close>

lemma status_env_cmds:
  "set (commands (events (status_env sys ENV w))) \<subseteq>
     {KindGetClusters, KubectlUseContext (''kind-nur-'' @ ENV), HelmList ENV,
      KubectlGetPods ENV (''environment='' @ ENV)}"
  by (simp add: status_env_def Let_def seq_simps)

lemma status_env_listed:
  assumes "cluster_listed sys (''nur-'' @ ENV) v"
  shows "take 2 (commands (events (status_env sys ENV v))) =
           [KindGetClusters, KubectlUseContext (''kind-nur-'' @ ENV)]"
    and "set (drop 2 (commands (events (status_env sys ENV v)))) \<subseteq>
           {HelmList ENV, KubectlGetPods ENV (''environment='' @ ENV)}"
    and "status_of sys (KubectlUseContext (''kind-nur-'' @ ENV)) (after sys KindGetClusters v) \<noteq> 0
         \<Longrightarrow> fst (status_env sys ENV v) =
               Exit (status_of sys (KubectlUseContext (''kind-nur-'' @ ENV))
                      (after sys KindGetClusters v)) \<and>
             commands (events (status_env sys ENV v)) =
               [KindGetClusters, KubectlUseContext (''kind-nur-'' @ ENV)]"
  using assms by (simp_all add: status_env_def Let_def seq_simps)

lemma status_env_not_listed:
  "\<not> cluster_listed sys (''nur-'' @ ENV) v \<Longrightarrow>
     commands (events (status_env sys ENV v)) = [KindGetClusters]"
  by (simp add: status_env_def Let_def seq_simps)

lemma show_status_parts:
  "commands (events (show_status sys w)) =
     commands (events (status_env sys ''dev'' w)) @
     (case fst (status_env sys ''dev'' w) of
        Next u \<Rightarrow> commands (events (status_env sys ''prd'' (final_world (status_env sys ''dev'' w))))
      | Exit n \<Rightarrow> [])"
  by (simp add: show_status_def seq_simps split: flow.splits)

text \<open>
  C5, as the script has it.  \<open>status\<close> starts no command that creates, installs,
  upgrades or uninstalls: all it runs is \<open>kind get clusters\<close>,
  \<open>kubectl config use-context\<close>, \<open>helm list\<close> and \<open>kubectl get pods\<close> for the two
  environments.  It is not read-only for the context of \<open>kubectl\<close>.  Its commands are
  those of the passage for dev, followed, when that passage has not ended the script, by
  those of the passage for prd.  In a passage where the cluster is listed, the command
  right after the listing is \<open>kubectl config use-context kind-nur-ENV\<close>; should it fail,
  the script ends there with its status; the commands that follow it in the passage are
  only \<open>helm list\<close> and \<open>kubectl get pods\<close>, so nothing switches the context back.  In a
  passage where the cluster is not listed the listing is the only command.
\<close>

theorem show_status_commands:
  "set (commands (events (show_status sys w))) \<subseteq>
     {KindGetClusters,
      KubectlUseContext ''kind-nur-dev'', KubectlUseContext ''kind-nur-prd'',
      HelmList ''dev'', HelmList ''prd'',
      KubectlGetPods ''dev'' ''environment=dev'', KubectlGetPods ''prd'' ''environment=prd''} \<and>
   commands (events (show_status sys w)) =
     commands (events (status_env sys ''dev'' w)) @
     (case fst (status_env sys ''dev'' w) of
        Next u \<Rightarrow> commands (events (status_env sys ''prd'' (final_world (status_env sys ''dev'' w))))
      | Exit n \<Rightarrow> []) \<and>
   (\<forall>ENV v. cluster_listed sys (''nur-'' @ ENV) v \<longrightarrow>
      (\<exists>rest. commands (events (status_env sys ENV v)) =
                KindGetClusters # KubectlUseContext (''kind-nur-'' @ ENV) # rest \<and>
              set rest \<subseteq> {HelmList ENV, KubectlGetPods ENV (''environment='' @ ENV)} \<and>
              (status_of sys (KubectlUseContext (''kind-nur-'' @ ENV)) (after sys KindGetClusters v) \<noteq> 0
               \<longrightarrow> rest = [] \<and>
                   fst (status_env sys ENV v) =
                     Exit (status_of sys (KubectlUseContext (''kind-nur-'' @ ENV))
                            (after sys KindGetClusters v))))) \<and>
   (\<forall>ENV v. \<not> cluster_listed sys (''nur-'' @ ENV) v \<longrightarrow>
      commands (events (status_env sys ENV v)) = [KindGetClusters])"
proof (intro conjI allI impI)
  have dev: "set (commands (events (status_env sys ''dev'' v))) \<subseteq>
     {KindGetClusters, KubectlUseContext ''kind-nur-dev'', HelmList ''dev'',
      KubectlGetPods ''dev'' ''environment=dev''}" for v
    using status_env_cmds [of sys "''dev''" v] by simp
  have prd: "set (commands (events (status_env sys ''prd'' v))) \<subseteq>
     {KindGetClusters, KubectlUseContext ''kind-nur-prd'', HelmList ''prd'',
      KubectlGetPods ''prd'' ''environment=prd''}" for v
    using status_env_cmds [of sys "''prd''" v] by simp
  have "set (commands (events (show_status sys w))) \<subseteq>
     set (commands (events (status_env sys ''dev'' w))) \<union>
     set (commands (events (status_env sys ''prd'' (final_world (status_env sys ''dev'' w)))))"
    by (auto simp add: show_status_parts split: flow.splits)
  then show "set (commands (events (show_status sys w))) \<subseteq>
     {KindGetClusters,
      KubectlUseContext ''kind-nur-dev'', KubectlUseContext ''kind-nur-prd'',
      HelmList ''dev'', HelmList ''prd'',
      KubectlGetPods ''dev'' ''environment=dev'', KubectlGetPods ''prd'' ''environment=prd''}"
    using dev [of w] prd [of "final_world (status_env sys ''dev'' w)"] by blast
  show "commands (events (show_status sys w)) =
     commands (events (status_env sys ''dev'' w)) @
     (case fst (status_env sys ''dev'' w) of
        Next u \<Rightarrow> commands (events (status_env sys ''prd'' (final_world (status_env sys ''dev'' w))))
      | Exit n \<Rightarrow> [])"
    by (rule show_status_parts)
next
  fix ENV v
  assume l: "cluster_listed sys (''nur-'' @ ENV) v"
  let ?cs = "commands (events (status_env sys ENV v))"
  let ?u = "KubectlUseContext (''kind-nur-'' @ ENV)"
  have "?cs = take 2 ?cs @ drop 2 ?cs" by simp
  then have shape: "?cs = KindGetClusters # ?u # drop 2 ?cs"
    using status_env_listed(1) [OF l] by simp
  have rest: "set (drop 2 ?cs) \<subseteq> {HelmList ENV, KubectlGetPods ENV (''environment='' @ ENV)}"
    using status_env_listed(2) [OF l] .
  have fail: "status_of sys ?u (after sys KindGetClusters v) \<noteq> 0 \<longrightarrow>
      drop 2 ?cs = [] \<and>
      fst (status_env sys ENV v) = Exit (status_of sys ?u (after sys KindGetClusters v))"
    using status_env_listed(3) [OF l] by simp
  show "\<exists>rest. ?cs = KindGetClusters # ?u # rest \<and>
          set rest \<subseteq> {HelmList ENV, KubectlGetPods ENV (''environment='' @ ENV)} \<and>
          (status_of sys ?u (after sys KindGetClusters v) \<noteq> 0 \<longrightarrow>
             rest = [] \<and>
             fst (status_env sys ENV v) = Exit (status_of sys ?u (after sys KindGetClusters v)))"
    using shape rest fail by blast
next
  fix ENV v
  assume "\<not> cluster_listed sys (''nur-'' @ ENV) v"
  then show "commands (events (status_env sys ENV v)) = [KindGetClusters]"
    by (rule status_env_not_listed)
qed

theorem show_status_commands_witness:
  "cluster_listed lab_sys ''nur-dev'' dev_only \<and>
   \<not> cluster_listed lab_sys ''nur-prd'' dev_only \<and>
   cluster_listed lab_sys ''nur-dev'' lost_context \<and>
   status_of lab_sys (KubectlUseContext ''kind-nur-dev'')
     (after lab_sys KindGetClusters lost_context) \<noteq> 0 \<and>
   commands (events (show_status lab_sys dev_only)) =
     [KindGetClusters, KubectlUseContext ''kind-nur-dev'', HelmList ''dev'', HelmList ''dev'',
      KubectlGetPods ''dev'' ''environment=dev'', KindGetClusters] \<and>
   commands (events (status_env lab_sys ''prd'' dev_only)) = [KindGetClusters] \<and>
   commands (events (status_env lab_sys ''dev'' lost_context)) =
     [KindGetClusters, KubectlUseContext ''kind-nur-dev''] \<and>
   fst (status_env lab_sys ''dev'' lost_context) = Exit 1 \<and>
   commands (events (show_status lab_sys lost_context)) =
     [KindGetClusters, KubectlUseContext ''kind-nur-dev'']"
proof -
  have a: "cluster_listed lab_sys (''nur-'' @ ''dev'') dev_only"
    by (simp add: cluster_listed_def output_of_def lab_eval)
  have b: "\<not> cluster_listed lab_sys (''nur-'' @ ''prd'') dev_only"
    by (simp add: cluster_listed_def output_of_def lab_eval)
  have c: "cluster_listed lab_sys (''nur-'' @ ''dev'') lost_context"
    by (simp add: cluster_listed_def output_of_def lab_eval)
  have s: "status_of lab_sys (KubectlUseContext (''kind-nur-'' @ ''dev''))
     (after lab_sys KindGetClusters lost_context) = 1"
    by (simp add: status_of_def after_def lab_eval)
  have whole: "commands (events (show_status lab_sys dev_only)) =
     [KindGetClusters, KubectlUseContext ''kind-nur-dev'', HelmList ''dev'', HelmList ''dev'',
      KubectlGetPods ''dev'' ''environment=dev'', KindGetClusters]"
    by (simp add: lab_eval)
  have t: "\<forall>ENV v. \<not> cluster_listed lab_sys (''nur-'' @ ENV) v \<longrightarrow>
      commands (events (status_env lab_sys ENV v)) = [KindGetClusters]"
    using show_status_commands [of lab_sys dev_only] by blast
  have p: "commands (events (status_env lab_sys ''prd'' dev_only)) = [KindGetClusters]"
    using t b by blast
  have u: "\<forall>ENV v. cluster_listed lab_sys (''nur-'' @ ENV) v \<longrightarrow>
      (\<exists>rest. commands (events (status_env lab_sys ENV v)) =
                KindGetClusters # KubectlUseContext (''kind-nur-'' @ ENV) # rest \<and>
              set rest \<subseteq> {HelmList ENV, KubectlGetPods ENV (''environment='' @ ENV)} \<and>
              (status_of lab_sys (KubectlUseContext (''kind-nur-'' @ ENV))
                 (after lab_sys KindGetClusters v) \<noteq> 0
               \<longrightarrow> rest = [] \<and>
                   fst (status_env lab_sys ENV v) =
                     Exit (status_of lab_sys (KubectlUseContext (''kind-nur-'' @ ENV))
                            (after lab_sys KindGetClusters v))))"
    using show_status_commands [of lab_sys dev_only] by blast
  have d: "commands (events (status_env lab_sys ''dev'' lost_context)) =
             [KindGetClusters, KubectlUseContext ''kind-nur-dev''] \<and>
           fst (status_env lab_sys ''dev'' lost_context) = Exit 1"
    using u [rule_format, OF c] s by auto
  have e: "commands (events (show_status lab_sys lost_context)) =
     commands (events (status_env lab_sys ''dev'' lost_context)) @
     (case fst (status_env lab_sys ''dev'' lost_context) of
        Next u \<Rightarrow> commands (events (status_env lab_sys ''prd''
                   (final_world (status_env lab_sys ''dev'' lost_context))))
      | Exit n \<Rightarrow> [])"
    using show_status_commands [of lab_sys lost_context] by blast
  show ?thesis using a b c s whole p d e by simp
qed

text \<open>
  C5 as stated fails.  With dev deployed and another context current, \<open>status\<close> switches
  to the context of dev and leaves it current.
\<close>

theorem show_status_switches_context_counterexample:
  "current dev_only = ''minikube'' \<and>
   KubectlUseContext ''kind-nur-dev'' \<in> set (commands (events (show_status lab_sys dev_only))) \<and>
   current (final_world (show_status lab_sys dev_only)) = ''kind-nur-dev''"
  by (simp add: lab_eval)

subsection \<open>The exit status\<close>

lemma set_e_main: "set_e sys True (main sys args)"
proof -
  have "set_e sys True (check_prerequisites sys)"
    by (simp add: set_e_def check_prerequisites_eq final_world_def events_def)
  then show ?thesis unfolding main_def by (intro set_e_seq set_e_dispatch)
qed

lemma set_e_dispatch_known:
  assumes "a \<in> {''dev'', ''prd'', ''all'', ''clean'', ''help'', ''--help'', ''-h''}"
  shows "set_e sys False (dispatch sys a)"
proof -
  have "set_e sys False (dispatch sys b)"
    if "b = ''dev'' \<or> b = ''prd'' \<or> b = ''all'' \<or> b = ''clean'' \<or> b = ''help'' \<or>
        b = ''--help'' \<or> b = ''-h''" for b
    using that unfolding dispatch_def
    by (elim disjE)
      (simp_all add: set_e_deploy_environment set_e_clean_deployments set_e_basic set_e_seq)
  then show ?thesis using assms by simp
qed

text \<open>
  C8, as the script has it.  A missing tool ends the script with status 1, before any
  command is started.  The status is 0 exactly when \<open>main\<close> runs to its end.  When a step
  fails, the failing command is the last command of the run and its status is the status
  of the process.  When no step fails the status is 0 or 1, and it is 0 if the tools are
  there and the option is one of \<open>dev\<close>, \<open>prd\<close>, \<open>all\<close>, \<open>clean\<close>, \<open>help\<close>, \<open>--help\<close>, \<open>-h\<close> or
  none (the 1 is that of \<open>exit 1\<close> for a missing tool or an unknown option, or of the
  \<open>grep\<close> of line 133 of \<open>status\<close>).
\<close>

theorem exit_status_of_main:
  "(\<not> tools_present sys w \<longrightarrow>
      exit_status (main sys args w) = 1 \<and> commands (events (main sys args w)) = []) \<and>
   (exit_status (main sys args w) = 0 \<longleftrightarrow> fst (main sys args w) = Next ()) \<and>
   (fails_at sys w (commands (events (main sys args w))) ps c \<longrightarrow>
      commands (events (main sys args w)) = ps @ [c] \<and>
      exit_status (main sys args w) = status_of sys c (replay sys ps w)) \<and>
   ((\<forall>qs d. \<not> fails_at sys w (commands (events (main sys args w))) qs d) \<longrightarrow>
      exit_status (main sys args w) \<le> 1 \<and>
      (tools_present sys w \<and>
       first_arg args \<in> {''dev'', ''prd'', ''all'', ''clean'', ''help'', ''--help'', ''-h''} \<longrightarrow>
       exit_status (main sys args w) = 0))"
proof (intro conjI impI)
  assume "\<not> tools_present sys w"
  then obtain msg where "main sys args w = (Exit 1, w, [Error msg])"
    using main_missing [of sys w args] by auto
  then show "exit_status (main sys args w) = 1" "commands (events (main sys args w)) = []"
    by (simp_all add: exit_status_def events_def)
next
  show "exit_status (main sys args w) = 0 \<longleftrightarrow> fst (main sys args w) = Next ()"
    using set_e_nonzero [OF set_e_main, of sys args w]
    by (cases "fst (main sys args w)") (auto simp add: exit_status_def)
next
  assume f: "fails_at sys w (commands (events (main sys args w))) ps c"
  show "commands (events (main sys args w)) = ps @ [c]"
    using set_e_failure(1) [OF set_e_main f] .
  show "exit_status (main sys args w) = status_of sys c (replay sys ps w)"
    using set_e_failure(2) [OF set_e_main f] by (simp add: exit_status_def)
next
  assume n: "\<forall>qs d. \<not> fails_at sys w (commands (events (main sys args w))) qs d"
  show "exit_status (main sys args w) \<le> 1"
    using set_e_exit_one [OF set_e_main n]
    by (cases "fst (main sys args w)") (auto simp add: exit_status_def)
  assume "tools_present sys w \<and>
       first_arg args \<in> {''dev'', ''prd'', ''all'', ''clean'', ''help'', ''--help'', ''-h''}"
  then have t: "main sys args w = dispatch sys (first_arg args) w"
    and k: "set_e sys False (dispatch sys (first_arg args))"
    by (simp_all add: main_present set_e_dispatch_known)
  have "\<exists>a. fst (dispatch sys (first_arg args) w) = Next a"
    using set_e_no_failure [OF k] n t by simp
  then show "exit_status (main sys args w) = 0"
    using t by (auto simp add: exit_status_def)
qed

lemma oom_failure:
  "fails_at oom_sys fresh (commands (events (main oom_sys [''dev''] fresh)))
     [KindGetClusters, KindCreateCluster ''nur-dev'', KubectlUseContext ''kind-nur-dev'',
      KubectlGetNamespace ''dev'', KubectlCreateNamespace ''dev'', HelmList ''dev'']
     (HelmInstall ''echo-server-dev'' ''values-dev.yaml'' ''dev'' True)"
  by (simp add: fails_at_def status_of_def after_def oom_exec_def lab_eval)

lemma oom_status:
  "status_of oom_sys (HelmInstall ''echo-server-dev'' ''values-dev.yaml'' ''dev'' True) v = 137"
  by (simp add: status_of_def oom_exec_def)

lemma fresh_all_no_failure:
  "\<forall>qs d. \<not> fails_at lab_sys fresh (commands (events (main lab_sys [''all''] fresh))) qs d"
proof -
  have "first_failure lab_sys (commands (events (main lab_sys [''all''] fresh))) fresh = None"
    by (simp add: status_of_def after_def lab_eval)
  then have "\<not> fails_at lab_sys fresh (commands (events (main lab_sys [''all''] fresh))) qs d"
    for qs d
    by (rule first_failure_none)
  then show ?thesis by simp
qed

theorem exit_status_of_main_witness:
  "\<not> tools_present lab_sys no_helm \<and>
   exit_status (main lab_sys [''clean''] no_helm) = 1 \<and>
   commands (events (main lab_sys [''clean''] no_helm)) = [] \<and>
   fails_at oom_sys fresh (commands (events (main oom_sys [''dev''] fresh)))
     [KindGetClusters, KindCreateCluster ''nur-dev'', KubectlUseContext ''kind-nur-dev'',
      KubectlGetNamespace ''dev'', KubectlCreateNamespace ''dev'', HelmList ''dev'']
     (HelmInstall ''echo-server-dev'' ''values-dev.yaml'' ''dev'' True) \<and>
   commands (events (main oom_sys [''dev''] fresh)) =
     [KindGetClusters, KindCreateCluster ''nur-dev'', KubectlUseContext ''kind-nur-dev'',
      KubectlGetNamespace ''dev'', KubectlCreateNamespace ''dev'', HelmList ''dev'',
      HelmInstall ''echo-server-dev'' ''values-dev.yaml'' ''dev'' True] \<and>
   exit_status (main oom_sys [''dev''] fresh) = 137 \<and>
   tools_present lab_sys fresh \<and>
   (\<forall>qs d. \<not> fails_at lab_sys fresh (commands (events (main lab_sys [''all''] fresh))) qs d) \<and>
   exit_status (main lab_sys [''all''] fresh) = 0 \<and>
   fst (main lab_sys [''all''] fresh) = Next ()"
proof -
  have h: "\<not> tools_present lab_sys no_helm" by (simp add: lab_eval)
  have t: "tools_present lab_sys fresh" by (simp add: lab_eval)
  have a: "first_arg [''all''] \<in> {''dev'', ''prd'', ''all'', ''clean'', ''help'', ''--help'', ''-h''}"
    by (simp add: first_arg_def)
  have one: "exit_status (main lab_sys [''clean''] no_helm) = 1 \<and>
             commands (events (main lab_sys [''clean''] no_helm)) = []"
    using h exit_status_of_main [of lab_sys no_helm "[''clean'']"] by blast
  have two: "commands (events (main oom_sys [''dev''] fresh)) =
       [KindGetClusters, KindCreateCluster ''nur-dev'', KubectlUseContext ''kind-nur-dev'',
        KubectlGetNamespace ''dev'', KubectlCreateNamespace ''dev'', HelmList ''dev''] @
       [HelmInstall ''echo-server-dev'' ''values-dev.yaml'' ''dev'' True] \<and>
     exit_status (main oom_sys [''dev''] fresh) =
       status_of oom_sys (HelmInstall ''echo-server-dev'' ''values-dev.yaml'' ''dev'' True)
         (replay oom_sys
           [KindGetClusters, KindCreateCluster ''nur-dev'', KubectlUseContext ''kind-nur-dev'',
            KubectlGetNamespace ''dev'', KubectlCreateNamespace ''dev'', HelmList ''dev''] fresh)"
    using oom_failure
      exit_status_of_main [of oom_sys fresh "[''dev'']"
        "[KindGetClusters, KindCreateCluster ''nur-dev'', KubectlUseContext ''kind-nur-dev'',
          KubectlGetNamespace ''dev'', KubectlCreateNamespace ''dev'', HelmList ''dev'']"
        "HelmInstall ''echo-server-dev'' ''values-dev.yaml'' ''dev'' True"]
    by blast
  have three: "exit_status (main lab_sys [''all''] fresh) = 0 \<and>
               fst (main lab_sys [''all''] fresh) = Next ()"
    using t a fresh_all_no_failure exit_status_of_main [of lab_sys fresh "[''all'']"] by blast
  show ?thesis
    using h t one two three oom_failure fresh_all_no_failure by (simp add: oom_status)
qed

text \<open>
  C8 as stated fails.  Without \<open>helm\<close> the status is 1, not 2.
\<close>

theorem missing_prerequisite_status_counterexample:
  "\<not> command_v lab_sys ''helm'' no_helm \<and> exit_status (main lab_sys [''dev''] no_helm) = 1 \<and>
   exit_status (main lab_sys [''dev''] no_helm) \<noteq> 2"
  by (simp add: lab_eval)

subsection \<open>The steps of the deploying commands\<close>

lemma map_filter_app:
  "List.map_filter f (xs @ ys) = List.map_filter f xs @ List.map_filter f ys"
  by (simp add: List.map_filter_def)

lemma deploy_environment_steps:
  "prefix (steps (events (deploy_environment sys E C V N w)))
     [EnsureCluster, SwitchContext (''kind-'' @ C), EnsureNamespace N, InstallOrUpgrade N]"
  "fst (deploy_environment sys E C V N w) = Next () \<Longrightarrow>
     steps (events (deploy_environment sys E C V N w)) =
       [EnsureCluster, SwitchContext (''kind-'' @ C), EnsureNamespace N, InstallOrUpgrade N]"
  by (simp_all add: steps_def deploy_environment_def seq_simps block_cmds map_filter_app
      List.map_filter_simps display_status_no_step split: flow.splits)

lemma deploy_environment_first_step:
  "\<exists>ss. List.map_filter step_of (commands (events (deploy_environment sys E C V N w))) =
     EnsureCluster # ss"
  by (simp add: deploy_environment_def seq_simps block_cmds map_filter_app
      List.map_filter_simps split: flow.splits)

lemma steps_two_deployments:
  assumes "steps t1 = [EnsureCluster, SwitchContext c, EnsureNamespace ns, InstallOrUpgrade ns]"
    and "List.map_filter step_of (commands t2) = EnsureCluster # ss"
    and "commands u = []"
  shows "steps (t1 @ u @ t2) =
     [EnsureCluster, SwitchContext c, EnsureNamespace ns, InstallOrUpgrade ns] @ steps t2"
proof -
  let ?a = "List.map_filter step_of (commands t1)"
  let ?b = "List.map_filter step_of (commands t2)"
  have "last ?a = last (remdups_adj ?a)" by simp
  also have "\<dots> = InstallOrUpgrade ns" using assms(1) by (simp add: steps_def)
  finally have "last ?a \<noteq> hd ?b" using assms(2) by simp
  then have "remdups_adj (?a @ ?b) = remdups_adj ?a @ remdups_adj ?b"
    by (simp add: remdups_adj_append')
  then show ?thesis
    using assms(1) assms(3) by (simp add: steps_def map_filter_app List.map_filter_simps)
qed

lemma dispatch_all_steps:
  "prefix (steps (events (dispatch sys ''all'' w))) (install_plan ''all'')"
  "fst (dispatch sys ''all'' w) = Next () \<Longrightarrow>
     steps (events (dispatch sys ''all'' w)) = install_plan ''all''"
proof -
  let ?d = "deploy_environment sys ''dev'' ''nur-dev'' ''values-dev.yaml'' ''dev'' w"
  let ?p = "deploy_environment sys ''prd'' ''nur-prd'' ''values-prd.yaml'' ''prd'' (final_world ?d)"
  let ?u = "[Echo [], Info ''=========================================='', Echo []]"
  have stop: "events (dispatch sys ''all'' w) = events ?d \<and> fst (dispatch sys ''all'' w) = Exit n"
    if "fst ?d = Exit n" for n
    using that by (simp add: dispatch_def seq_simps)
  have go: "events (dispatch sys ''all'' w) = events ?d @ ?u @ events ?p \<and>
            fst (dispatch sys ''all'' w) = fst ?p"
    if "fst ?d = Next ()"
    using that by (simp add: dispatch_def seq_simps)
  obtain ss where first: "List.map_filter step_of (commands (events ?p)) = EnsureCluster # ss"
    using deploy_environment_first_step
      [of sys "''prd''" "''nur-prd''" "''values-prd.yaml''" "''prd''" "final_world ?d"]
    by (elim exE)
  have both: "steps (events ?d @ ?u @ events ?p) = env_plan ''dev'' @ steps (events ?p)"
    if "fst ?d = Next ()"
    using steps_two_deployments [OF _ first, of "events ?d" "''kind-nur-dev''" "''dev''" ?u]
      deploy_environment_steps(2) [OF that] by (simp add: env_plan_def)
  show "prefix (steps (events (dispatch sys ''all'' w))) (install_plan ''all'')"
  proof (cases "fst ?d")
    case (Exit n)
    have "prefix (steps (events ?d)) (env_plan ''dev'' @ env_plan ''prd'')"
      using deploy_environment_steps(1) [of sys "''dev''" "''nur-dev''" "''values-dev.yaml''" "''dev''" w]
      by (intro prefix_prefix) (simp add: env_plan_def)
    then show ?thesis using stop [OF Exit] by (simp add: install_plan_def)
  next
    case (Next u)
    then have n: "fst ?d = Next ()" by simp
    show ?thesis
      using go [OF n] both [OF n]
        deploy_environment_steps(1) [of sys "''prd''" "''nur-prd''" "''values-prd.yaml''" "''prd''" "final_world ?d"]
      by (simp add: install_plan_def env_plan_def)
  qed
  assume fin: "fst (dispatch sys ''all'' w) = Next ()"
  show "steps (events (dispatch sys ''all'' w)) = install_plan ''all''"
  proof (cases "fst ?d")
    case (Exit n)
    then show ?thesis using stop [OF Exit] fin by simp
  next
    case (Next u)
    then have n: "fst ?d = Next ()" by simp
    then have "fst ?p = Next ()" using go [OF n] fin by simp
    then show ?thesis
      using go [OF n] both [OF n] deploy_environment_steps(2) [of sys "''prd''" "''nur-prd''" "''values-prd.yaml''" "''prd''" "final_world ?d"]
      by (simp add: install_plan_def env_plan_def)
  qed
qed

lemma dispatch_steps_one:
  "prefix (steps (events (dispatch sys ''dev'' w))) (install_plan ''dev'')"
  "fst (dispatch sys ''dev'' w) = Next () \<Longrightarrow>
     steps (events (dispatch sys ''dev'' w)) = install_plan ''dev''"
  "prefix (steps (events (dispatch sys ''prd'' w))) (install_plan ''prd'')"
  "fst (dispatch sys ''prd'' w) = Next () \<Longrightarrow>
     steps (events (dispatch sys ''prd'' w)) = install_plan ''prd''"
  using deploy_environment_steps [of sys "''dev''" "''nur-dev''" "''values-dev.yaml''" "''dev''" w]
    deploy_environment_steps [of sys "''prd''" "''nur-prd''" "''values-prd.yaml''" "''prd''" w]
  by (simp_all add: dispatch_def install_plan_def env_plan_def)

lemma main_steps_missing:
  "\<not> tools_present sys w \<Longrightarrow> steps (events (main sys args w)) = [] \<and> fst (main sys args w) = Exit 1"
  using main_missing [of sys w args] by (auto simp add: steps_def events_def List.map_filter_simps)

text \<open>
  C9, as the script has it.  For \<open>dev\<close>, \<open>prd\<close> and \<open>all\<close> the steps of a run are the
  beginning of one sequence that the command alone decides: cluster, context, namespace
  and release for dev, then the same for prd.  The state of the world decides where a
  run stops, and a run that ends with status 0 has gone through the whole sequence.
\<close>

theorem deploy_steps_follow_plan:
  assumes "a = ''dev'' \<or> a = ''prd'' \<or> a = ''all''"
  shows "prefix (steps (events (main sys [a] w))) (install_plan a) \<and>
         (exit_status (main sys [a] w) = 0 \<longrightarrow> steps (events (main sys [a] w)) = install_plan a)"
proof (cases "tools_present sys w")
  case False
  then show ?thesis using main_steps_missing [OF False, of "[a]"] by (simp add: exit_status_def)
next
  case True
  have arg: "first_arg [a] = a" using assms by (auto simp add: first_arg_def)
  have m: "main sys [a] w = dispatch sys a w" using True arg by (simp add: main_present)
  have z: "exit_status (dispatch sys a w) = 0 \<Longrightarrow> fst (dispatch sys a w) = Next ()"
    using set_e_nonzero [OF set_e_dispatch, of sys a w]
    by (cases "fst (dispatch sys a w)") (auto simp add: exit_status_def)
  show ?thesis
    using assms dispatch_all_steps [of sys w] dispatch_steps_one [of sys w] z by (auto simp add: m)
qed

theorem deploy_steps_follow_plan_witness:
  "exit_status (main lab_sys [''all''] fresh) = 0 \<and>
   steps (events (main lab_sys [''all''] fresh)) =
     [EnsureCluster, SwitchContext ''kind-nur-dev'', EnsureNamespace ''dev'', InstallOrUpgrade ''dev'',
      EnsureCluster, SwitchContext ''kind-nur-prd'', EnsureNamespace ''prd'', InstallOrUpgrade ''prd'']"
proof -
  have e: "exit_status (main lab_sys [''all''] fresh) = 0" by (simp add: lab_eval)
  have a: "''all'' = ''dev'' \<or> ''all'' = ''prd'' \<or> ''all'' = ''all''" by simp
  show ?thesis
    using e deploy_steps_follow_plan [OF a, of lab_sys fresh]
    by (simp add: install_plan_def env_plan_def)
qed

text \<open>
  C9 as stated fails.  The same command on two machines goes through different steps:
  all eight on a fresh machine, two where the context of dev is lost.
\<close>

theorem steps_depend_on_state_counterexample:
  "steps (events (main lab_sys [''all''] lost_context)) = [EnsureCluster, SwitchContext ''kind-nur-dev''] \<and>
   steps (events (main lab_sys [''all''] fresh)) \<noteq> steps (events (main lab_sys [''all''] lost_context))"
proof -
  have a: "steps (events (main lab_sys [''all''] lost_context)) =
             [EnsureCluster, SwitchContext ''kind-nur-dev'']"
    by (simp add: lab_eval steps_def List.map_filter_simps)
  have b: "length (steps (events (main lab_sys [''all''] fresh))) = 8"
    by (simp add: lab_eval steps_def List.map_filter_simps)
  show ?thesis using a b by auto
qed

subsection \<open>A release with a longer name\<close>

text \<open>
  The test of lines 68 and 159 is \<open>grep -q "echo-server-${ENV}"\<close> on the whole output of
  \<open>helm list\<close>: it succeeds when any line has that text in it, so also for a release whose
  name only begins with it.
\<close>

lemma longer_name_shown:
  "output_of lab_sys (HelmList ''dev'') old_dev =
     [''NAME NAMESPACE REVISION STATUS'', ''echo-server-dev-old dev 1 deployed'']"
  "release_shown lab_sys ''dev'' ''dev'' old_dev"
  by (simp_all add: release_shown_def output_of_def lab_eval)

text \<open>
  C7 on the machine \<open>old_dev\<close>.  The release \<open>echo-server-dev\<close> does not exist, and
  \<open>deploy.sh dev\<close> asks for its upgrade, not for its installation; the upgrade fails and
  the script ends with status 1.
\<close>

theorem upgrade_of_missing_release:
  "(''kind-nur-dev'', ''dev'', ''echo-server-dev'') \<notin> set (releases old_dev) \<and>
   commands (events (main lab_sys [''dev''] old_dev)) =
     [KindGetClusters, KubectlUseContext ''kind-nur-dev'', KubectlGetNamespace ''dev'',
      HelmList ''dev'', HelmUpgrade ''echo-server-dev'' ''values-dev.yaml'' ''dev'' True] \<and>
   exit_status (main lab_sys [''dev''] old_dev) = 1"
  by (simp add: lab_eval)

text \<open>
  C4 on the machine \<open>old_prd\<close>.  Neither release exists.  For dev \<open>deploy.sh clean\<close>
  prints the warning and goes on; for prd, where the release \<open>echo-server-prd-old\<close> is
  listed, it asks for the uninstallation of \<open>echo-server-prd\<close>, which fails, and the
  script ends with status 1.
\<close>

theorem uninstall_of_missing_release:
  "(''kind-nur-dev'', ''dev'', ''echo-server-dev'') \<notin> set (releases old_prd) \<and>
   (''kind-nur-prd'', ''prd'', ''echo-server-prd'') \<notin> set (releases old_prd) \<and>
   events (main lab_sys [''clean''] old_prd) =
     [Warning ''Cleaning up all deployments...'',
      Run KindGetClusters, Info ''Cleaning dev environment...'',
      Run (KubectlUseContext ''kind-nur-dev''), Run (HelmList ''dev''),
      Warning ''No release found in dev'',
      Run KindGetClusters, Info ''Cleaning prd environment...'',
      Run (KubectlUseContext ''kind-nur-prd''), Run (HelmList ''prd''),
      Run (HelmUninstall ''echo-server-prd'' ''prd'')] \<and>
   exit_status (main lab_sys [''clean''] old_prd) = 1"
  by (simp add: lab_eval)

end
